theory Spec2Isabelle
  imports Complex_Main
begin

section \<open>Python values used by both modules\<close>

text \<open>
  Every exception the two Python files can raise by themselves is a constructor of
  \<open>error\<close>; a function that can raise returns \<open>error + 'a\<close> with \<open>Inl\<close> for the raise.
\<close>

datatype error = KeyError | IndexError | TypeError | NotImplementedError

text \<open>Sequencing: the first raise ends the computation.\<close>

definition bind_err :: "'e + 'a \<Rightarrow> ('a \<Rightarrow> 'e + 'b) \<Rightarrow> 'e + 'b" where
  "bind_err r f = (case r of Inl e \<Rightarrow> Inl e | Inr x \<Rightarrow> f x)"

text \<open>
  A numpy \<open>float64\<close>: a finite number, the two infinities, or not-a-number. Finite
  numbers are real numbers here: rounding, overflow and the sign of zero are left out,
  the special values follow IEEE 754.
\<close>

datatype float64 = Fin real | PInf | NInf | NaN

fun np_isfinite :: "float64 \<Rightarrow> bool" where
  "np_isfinite (Fin x) = True"
| "np_isfinite PInf = False"
| "np_isfinite NInf = False"
| "np_isfinite NaN = False"

fun fneg :: "float64 \<Rightarrow> float64" where
  "fneg (Fin x) = Fin (- x)"
| "fneg PInf = NInf"
| "fneg NInf = PInf"
| "fneg NaN = NaN"

fun fadd :: "float64 \<Rightarrow> float64 \<Rightarrow> float64" where
  "fadd NaN y = NaN"
| "fadd (Fin a) (Fin b) = Fin (a + b)"
| "fadd (Fin a) y = y"
| "fadd PInf NInf = NaN"
| "fadd PInf NaN = NaN"
| "fadd PInf y = PInf"
| "fadd NInf PInf = NaN"
| "fadd NInf NaN = NaN"
| "fadd NInf y = NInf"

definition fsub :: "float64 \<Rightarrow> float64 \<Rightarrow> float64" where
  "fsub x y = fadd x (fneg y)"

text \<open>The sign of a product with an infinity: \<open>inf * 0\<close> is not a number.\<close>

definition inf_times :: "bool \<Rightarrow> real \<Rightarrow> float64" where
  "inf_times positive a =
     (if a = 0 then NaN else if (0 < a) = positive then PInf else NInf)"

fun fmul :: "float64 \<Rightarrow> float64 \<Rightarrow> float64" where
  "fmul NaN y = NaN"
| "fmul (Fin a) (Fin b) = Fin (a * b)"
| "fmul (Fin a) PInf = inf_times True a"
| "fmul (Fin a) NInf = inf_times False a"
| "fmul (Fin a) NaN = NaN"
| "fmul PInf (Fin b) = inf_times True b"
| "fmul PInf PInf = PInf"
| "fmul PInf NInf = NInf"
| "fmul PInf NaN = NaN"
| "fmul NInf (Fin b) = inf_times False b"
| "fmul NInf PInf = NInf"
| "fmul NInf NInf = PInf"
| "fmul NInf NaN = NaN"

section \<open>numpy and pandas operations of \<open>initGridModel.py\<close>\<close>

text \<open>\<open>a * b\<close> on two columns of one table (equal lengths): the elementwise product.\<close>

definition np_mul :: "float64 list \<Rightarrow> float64 list \<Rightarrow> float64 list" where
  "np_mul xs ys = map2 fmul xs ys"

text \<open>\<open>np.any(flags)\<close> and \<open>np.where(flags)[0]\<close> on a boolean array.\<close>

definition np_any :: "bool list \<Rightarrow> bool" where
  "np_any flags = list_ex (\<lambda>b. b) flags"

definition np_where :: "bool list \<Rightarrow> nat list" where
  "np_where flags = filter (\<lambda>i. flags ! i) [0..<length flags]"

text \<open>
  \<open>arr[mask] = v\<close> with a boolean mask computed from an array of the same table:
  the entries under a true mask become \<open>v\<close>, the others stay.
\<close>

definition mask_assign :: "bool list \<Rightarrow> 'a \<Rightarrow> 'a list \<Rightarrow> 'a list" where
  "mask_assign msk v arr = map2 (\<lambda>m x. if m then v else x) msk arr"

text \<open>
  \<open>np.sum(series)\<close> on a pandas Series hands over to \<open>Series.sum\<close>, whose default
  skips the NaN entries; the infinities are summed.
\<close>

definition np_sum :: "float64 list \<Rightarrow> float64" where
  "np_sum xs = foldl fadd (Fin 0) (filter (\<lambda>x. x \<noteq> NaN) xs)"

section \<open>The pandapower network read by \<open>init\<close>\<close>

text \<open>
  One record per row of each table, with the columns \<open>init\<close> reads. The bus table
  carries its index labels, since lines and transformers name buses by label; the
  other tables are read by position.
\<close>

record bus_row =
  b_index :: int
  b_vn_kv :: float64

record line_row =
  l_r_ohm_per_km :: float64
  l_x_ohm_per_km :: float64
  l_c_nf_per_km :: float64
  l_g_us_per_km :: float64
  l_length_km :: float64
  l_from_bus :: int
  l_to_bus :: int
  l_in_service :: bool

record trafo_row =
  t_vn_hv_kv :: float64
  t_vn_lv_kv :: float64
  t_vk_percent :: float64
  t_vkr_percent :: float64
  t_sn_mva :: float64
  t_pfe_kw :: float64
  t_i0_percent :: float64
  t_tap_step_percent :: float64
  t_tap_pos :: float64
  t_tap_side :: "string option"
  t_hv_bus :: int
  t_lv_bus :: int
  t_in_service :: bool

record shunt_row =
  s_p_mw :: float64
  s_q_mvar :: float64
  s_bus :: int
  s_in_service :: bool

record load_row =
  ld_p_mw :: float64
  ld_q_mvar :: float64
  ld_bus :: int
  ld_in_service :: bool

record gen_row =
  g_p_mw :: float64
  g_vm_pu :: float64
  g_min_q_mvar :: float64
  g_max_q_mvar :: float64
  g_bus :: int
  g_in_service :: bool
  g_slack :: bool

record ext_grid_row =
  e_bus :: int
  e_vm_pu :: float64

record pp_net =
  pp_sn_mva :: float64
  pp_f_hz :: float64
  pp_bus :: "bus_row list"
  pp_line :: "line_row list"
  pp_trafo :: "trafo_row list"
  pp_shunt :: "shunt_row list"
  pp_load :: "load_row list"
  pp_gen :: "gen_row list"
  pp_ext_grid :: "ext_grid_row list"

text \<open>
  \<open>pp_net.bus.loc[labels]["vn_kv"]\<close>: the rows of every label, in the order of the
  labels; a label that is not in the index raises KeyError.
\<close>

definition bus_loc :: "bus_row list \<Rightarrow> int list \<Rightarrow> error + float64 list" where
  "bus_loc buses labels =
     (if list_all (\<lambda>k. k \<in> set (map b_index buses)) labels
      then Inr (concat (map (\<lambda>k. map b_vn_kv (filter (\<lambda>r. b_index r = k) buses)) labels))
      else Inl KeyError)"

text \<open>
  \<open>pp_net.bus.iloc[np.argsort(pp_net.bus.index)]["vn_kv"].values\<close>: the nominal
  voltages in the order of the sorted index labels.
\<close>

definition bus_vn_kv_sorted :: "bus_row list \<Rightarrow> float64 list" where
  "bus_vn_kv_sorted buses = map b_vn_kv (sort_key b_index buses)"

section \<open>The extension classes \<open>init\<close> drives\<close>

text \<open>
  \<open>PandaPowerConverter\<close> and \<open>GridModel\<close> are extension classes whose code is not
  among the Python sources. The converter is a pair of functions taken as a
  parameter; its first two arguments are the values given to \<open>set_sn_mva\<close> and
  \<open>set_f_hz\<close>. A \<open>GridModel\<close> is the sequence of method calls it has received, in
  order, with their arguments.
\<close>

record 'a converter =
  get_line_param ::
    "float64 \<Rightarrow> float64 \<Rightarrow> float64 list \<Rightarrow> float64 list \<Rightarrow> float64 list \<Rightarrow> float64 list
       \<Rightarrow> float64 list \<Rightarrow> float64 list \<Rightarrow> 'a \<times> 'a \<times> 'a"
  get_trafo_param ::
    "float64 \<Rightarrow> float64 \<Rightarrow> float64 list \<Rightarrow> float64 list \<Rightarrow> float64 list \<Rightarrow> float64 list
       \<Rightarrow> float64 list \<Rightarrow> float64 list \<Rightarrow> float64 list \<Rightarrow> float64 list \<Rightarrow> 'a \<times> 'a \<times> 'a"

text \<open>
  The argument of \<open>add_gen_slackbus\<close> is either the integer array \<open>np.where\<close> returns
  or a plain integer.
\<close>

datatype slack_id = IdArray "nat list" | IdScalar nat

datatype 'a gm_call =
    InitBus "float64 list" nat nat
  | InitPowerlines 'a 'a 'a "int list" "int list"
  | DeactivatePowerline nat
  | InitShunt "float64 list" "float64 list" "int list"
  | DeactivateShunt nat
  | InitTrafo 'a 'a 'a "float64 list" "float64 list" "bool list" "int list" "int list"
  | DeactivateTrafo nat
  | InitLoads "float64 list" "float64 list" "int list"
  | DeactivateLoad nat
  | InitGenerators "float64 list" "float64 list" "float64 list" "float64 list" "int list"
  | DeactivateGen nat
  | ChangeVGen "nat list" "float64 list"
  | AddGenSlackbus slack_id

type_synonym 'a grid_model = "'a gm_call list"

section \<open>\<open>init\<close>\<close>

text \<open>
  The loop \<open>for i, status in enumerate(in_service): if not status: model.deactivate_x(i)\<close>,
  the same for the five tables; \<open>deactivate\<close> is the call it makes.
\<close>

fun deactivate_loop ::
  "(nat \<Rightarrow> 'a gm_call) \<Rightarrow> nat \<Rightarrow> bool list \<Rightarrow> 'a grid_model \<Rightarrow> 'a grid_model" where
  "deactivate_loop deactivate i [] model = model"
| "deactivate_loop deactivate i (status # rest) model =
     deactivate_loop deactivate (Suc i) rest
       (if \<not> status then model @ [deactivate i] else model)"

text \<open>
  Lines 100 to 107: the two tap columns with their non-finite entries overwritten by
  zero, and the tap side. The mask of the last assignment is computed from \<open>tap_pos\<close>
  after its own assignment, as in the source. Where \<open>.values\<close> is a view of the
  network's column, the two assignments also change the network that was passed in;
  the embedding follows the arrays handed to the model and returns only the model.
\<close>

definition trafo_taps :: "trafo_row list \<Rightarrow> float64 list \<times> float64 list \<times> bool list" where
  "trafo_taps trafos =
     (let tap_step_pct0 = map t_tap_step_percent trafos;
          tap_step_pct = mask_assign (map (\<lambda>v. \<not> np_isfinite v) tap_step_pct0) (Fin 0) tap_step_pct0;
          tap_pos0 = map t_tap_pos trafos;
          tap_pos = mask_assign (map (\<lambda>v. \<not> np_isfinite v) tap_pos0) (Fin 0) tap_pos0;
          is_tap_hv_side0 = map (\<lambda>t. t_tap_side t = Some ''hv'') trafos;
          is_tap_hv_side = mask_assign (map (\<lambda>v. \<not> np_isfinite v) tap_pos) True is_tap_hv_side0
      in (tap_step_pct, tap_pos, is_tap_hv_side))"

text \<open>Lines 74 to 141: the buses and the five element tables, each followed by its loop.\<close>

definition init_elements ::
  "pp_net \<Rightarrow> 'a \<times> 'a \<times> 'a \<Rightarrow> 'a \<times> 'a \<times> 'a \<Rightarrow> 'a grid_model" where
  "init_elements pp_net line_rxh trafo_rxb =
     (case line_rxh of (line_r, line_x, line_h) \<Rightarrow>
      case trafo_rxb of (trafo_r, trafo_x, trafo_b) \<Rightarrow>
      case trafo_taps (pp_trafo pp_net) of (tap_step_pct, tap_pos, is_tap_hv_side) \<Rightarrow>
      let model = [];
          model = model @ [InitBus (bus_vn_kv_sorted (pp_bus pp_net))
                             (length (pp_line pp_net)) (length (pp_trafo pp_net))];
          model = model @ [InitPowerlines line_r line_x line_h
                             (map l_from_bus (pp_line pp_net)) (map l_to_bus (pp_line pp_net))];
          model = deactivate_loop DeactivatePowerline 0 (map l_in_service (pp_line pp_net)) model;
          model = model @ [InitShunt (map s_p_mw (pp_shunt pp_net)) (map s_q_mvar (pp_shunt pp_net))
                             (map s_bus (pp_shunt pp_net))];
          model = deactivate_loop DeactivateShunt 0 (map s_in_service (pp_shunt pp_net)) model;
          model = model @ [InitTrafo trafo_r trafo_x trafo_b tap_step_pct tap_pos is_tap_hv_side
                             (map t_hv_bus (pp_trafo pp_net)) (map t_lv_bus (pp_trafo pp_net))];
          model = deactivate_loop DeactivateTrafo 0 (map t_in_service (pp_trafo pp_net)) model;
          model = model @ [InitLoads (map ld_p_mw (pp_load pp_net)) (map ld_q_mvar (pp_load pp_net))
                             (map ld_bus (pp_load pp_net))];
          model = deactivate_loop DeactivateLoad 0 (map ld_in_service (pp_load pp_net)) model;
          model = model @ [InitGenerators (map g_p_mw (pp_gen pp_net)) (map g_vm_pu (pp_gen pp_net))
                             (map g_min_q_mvar (pp_gen pp_net)) (map g_max_q_mvar (pp_gen pp_net))
                             (map g_bus (pp_gen pp_net))];
          model = deactivate_loop DeactivateGen 0 (map g_in_service (pp_gen pp_net)) model
      in model)"

text \<open>
  Lines 145 to 165: the slack. \<open>pp_net.ext_grid["bus"].values[0]\<close> raises IndexError
  on an empty table. \<open>pp_net.gen["vm_pu"][slack_gen_id]\<close> reads the generator table
  under its default index, where label and position agree.
\<close>

definition init_slack :: "pp_net \<Rightarrow> 'a grid_model \<Rightarrow> error + 'a grid_model" where
  "init_slack pp_net model =
     (let gens = pp_gen pp_net in
      if np_any (map g_slack gens) then
        (let slack_gen_id = np_where (map g_slack gens);
             model = model @ [ChangeVGen slack_gen_id (map (\<lambda>i. map g_vm_pu gens ! i) slack_gen_id)]
         in Inr (model @ [AddGenSlackbus (IdArray slack_gen_id)]))
      else
        (case pp_ext_grid pp_net of
           [] \<Rightarrow> Inl IndexError
         | e # _ \<Rightarrow>
            (let slack_bus_id = e_bus e in
             if np_any (map (\<lambda>g. g_bus g = slack_bus_id) gens) then
               (let slack_gen_id = np_where (map (\<lambda>g. g_bus g = slack_bus_id) gens)
                in Inr (model @ [AddGenSlackbus (IdArray slack_gen_id)]))
             else
               (let gen_p = map g_p_mw gens
                            @ [fsub (np_sum (map ld_p_mw (pp_load pp_net))) (np_sum (map g_p_mw gens))];
                    gen_v = map g_vm_pu gens @ [e_vm_pu e];
                    gen_bus = map g_bus gens @ [slack_bus_id];
                    gen_min_q = map g_min_q_mvar gens @ [Fin (- 999999)];
                    gen_max_q = map g_max_q_mvar gens @ [Fin 99999];
                    model = model @ [InitGenerators gen_p gen_v gen_min_q gen_max_q gen_bus];
                    slack_gen_id = length gens
                in Inr (model @ [AddGenSlackbus (IdScalar slack_gen_id)])))))"

text \<open>
  Lines 53 to 61: the per-unit parameters of the lines. The two label lookups are
  evaluated after the four products and before the call of the converter.
\<close>

definition line_param :: "'a converter \<Rightarrow> pp_net \<Rightarrow> error + 'a \<times> 'a \<times> 'a" where
  "line_param converter pp_net =
     bind_err (bus_loc (pp_bus pp_net) (map l_from_bus (pp_line pp_net))) (\<lambda>vn_from.
     bind_err (bus_loc (pp_bus pp_net) (map l_to_bus (pp_line pp_net))) (\<lambda>vn_to.
       Inr (get_line_param converter (pp_sn_mva pp_net) (pp_f_hz pp_net)
              (np_mul (map l_r_ohm_per_km (pp_line pp_net)) (map l_length_km (pp_line pp_net)))
              (np_mul (map l_x_ohm_per_km (pp_line pp_net)) (map l_length_km (pp_line pp_net)))
              (np_mul (map l_c_nf_per_km (pp_line pp_net)) (map l_length_km (pp_line pp_net)))
              (np_mul (map l_g_us_per_km (pp_line pp_net)) (map l_length_km (pp_line pp_net)))
              vn_from vn_to)))"

text \<open>Lines 62 to 71: the per-unit parameters of the transformers.\<close>

definition trafo_param :: "'a converter \<Rightarrow> pp_net \<Rightarrow> error + 'a \<times> 'a \<times> 'a" where
  "trafo_param converter pp_net =
     bind_err (bus_loc (pp_bus pp_net) (map t_lv_bus (pp_trafo pp_net))) (\<lambda>vn_lv.
       Inr (get_trafo_param converter (pp_sn_mva pp_net) (pp_f_hz pp_net)
              (map t_vn_hv_kv (pp_trafo pp_net)) (map t_vn_lv_kv (pp_trafo pp_net))
              (map t_vk_percent (pp_trafo pp_net)) (map t_vkr_percent (pp_trafo pp_net))
              (map t_sn_mva (pp_trafo pp_net)) (map t_pfe_kw (pp_trafo pp_net))
              (map t_i0_percent (pp_trafo pp_net)) vn_lv))"

text \<open>
  \<open>init(pp_net)\<close>. The three label lookups are the only places before the slack where
  the Python code itself can raise.
\<close>

definition init :: "'a converter \<Rightarrow> pp_net \<Rightarrow> error + 'a grid_model" where
  "init converter pp_net =
     bind_err (line_param converter pp_net) (\<lambda>line_rxh.
     bind_err (trafo_param converter pp_net) (\<lambda>trafo_rxb.
       init_slack pp_net (init_elements pp_net line_rxh trafo_rxb)))"

section \<open>Values and external functions of \<open>compute_powerflow.py\<close>\<close>

text \<open>The values an option dictionary holds, and Python's truth test on them.\<close>

datatype pyval = PyNone | PyBool bool | PyInt int | PyFloat real | PyStr string

fun truthy :: "pyval \<Rightarrow> bool" where
  "truthy PyNone = False"
| "truthy (PyBool b) = b"
| "truthy (PyInt i) = (i \<noteq> 0)"
| "truthy (PyFloat x) = (x \<noteq> 0)"
| "truthy (PyStr s) = (s \<noteq> [])"

type_synonym pydict = "string \<rightharpoonup> pyval"

text \<open>\<open>d[k]\<close> raises KeyError on a missing key.\<close>

definition getitem :: "pydict \<Rightarrow> string \<Rightarrow> error + pyval" where
  "getitem d k = (case d k of None \<Rightarrow> Inl KeyError | Some v \<Rightarrow> Inr v)"

text \<open>
  The pandapower network as \<open>runpp\<close> sees it: the entries \<open>runpp\<close> itself reads or
  writes, and the rest of the network as one value of the type \<open>'v\<close> of pandapower's
  data (tables, cases, matrices), which \<open>runpp\<close> only hands from one pandapower
  function to the next.
\<close>

record 'v net =
  n_options :: pydict
  n_converged :: bool
  n_OPF_converged :: bool
  n_ppc :: "'v option"
  n_data :: 'v

text \<open>The eleven values \<open>_get_pf_variables_from_ppci\<close> returns.\<close>

record 'v pf_variables =
  pf_baseMVA :: 'v
  pf_bus :: 'v
  pf_gen :: 'v
  pf_branch :: 'v
  pf_ref :: 'v
  pf_pv :: 'v
  pf_pq :: 'v
  pf_on :: 'v
  pf_gbus :: 'v
  pf_V0 :: "complex list"
  pf_ref_gens :: 'v

text \<open>
  A value of the dictionaries given to \<open>_store_internal\<close>. The entries that hold
  measured wall-clock durations are \<open>ETime\<close>: time is not part of the embedding.
\<close>

datatype 'v entry = ENone | EData 'v | EVolt "complex list" | ETime

text \<open>
  A \<open>KLUSolver\<close> is the sequence of calls it has received since it was created.
\<close>

datatype 'v solver_call = Reset | Solve 'v "complex list" 'v 'v 'v pyval pyval

type_synonym 'v solver = "'v solver_call list"

text \<open>
  Modelled from the spec: the code of \<open>KLUSolver\<close> (module \<open>pyklu_cpp\<close>) is not among
  the sources. By the spec a solve never raises: it ends in one of the terminal states
  converged, diverged or iteration budget exceeded, and afterwards the solver exposes
  the final voltage magnitude and angle of every bus, the convergence flag, the
  iteration count and the last Jacobian; an instance shares no state with another.
  So what the getters return is a function of the instance's own call sequence.
\<close>

record 'v solver_out =
  so_V :: "(real \<times> real) list"
  so_J :: 'v
  so_converged :: bool
  so_nb_iter :: nat
  so_timers :: 'v

definition get_Vm :: "'v solver_out \<Rightarrow> real list" where
  "get_Vm out = map fst (so_V out)"

definition get_Va :: "'v solver_out \<Rightarrow> real list" where
  "get_Va out = map snd (so_V out)"

text \<open>
  The functions of pandapower, scipy and the solver extension that the module calls,
  taken as parameters. A pandapower function that is given the network may change it,
  so it returns the network. \<open>init_runpp_options\<close> stands for
  \<open>_passed_runpp_parameters(locals())\<close> followed by \<open>_init_runpp_options\<close>, which fills
  \<open>net["_options"]\<close> from the arguments of \<open>runpp\<close> and the network's own user options.
\<close>

record 'v env =
  init_runpp_options :: "'v net \<Rightarrow> pyval \<Rightarrow> bool \<Rightarrow> pydict \<Rightarrow> 'v net"
  add_auxiliary_elements :: "'v net \<Rightarrow> 'v net"
  verify_results :: "'v net \<Rightarrow> 'v net"
  reset_results :: "'v net \<Rightarrow> 'v net"
  pd2ppc :: "'v net \<Rightarrow> 'v \<times> 'v \<times> 'v net"
  run_dc_pf :: "'v \<Rightarrow> 'v"
  get_numba_functions :: "'v \<Rightarrow> pydict \<Rightarrow> 'v \<times> 'v"
  get_pf_variables_from_ppci :: "'v \<Rightarrow> 'v pf_variables"
  get_Y_bus :: "'v \<Rightarrow> pydict \<Rightarrow> 'v \<Rightarrow> 'v \<Rightarrow> 'v \<Rightarrow> 'v \<Rightarrow> 'v \<times> 'v \<times> 'v \<times> 'v"
  get_Sbus :: "'v \<Rightarrow> bool \<Rightarrow> 'v"
  store_internal :: "'v \<Rightarrow> (string \<times> 'v entry) list \<Rightarrow> 'v"
  ppci_to_pfsoln :: "'v \<Rightarrow> pydict \<Rightarrow> 'v \<times> 'v \<times> 'v"
  store_results_from_pf_in_ppci :: "'v \<Rightarrow> 'v \<Rightarrow> 'v \<Rightarrow> 'v \<Rightarrow> bool \<Rightarrow> nat \<Rightarrow> 'v"
  ppci_to_net :: "'v \<Rightarrow> 'v net \<Rightarrow> 'v net"
  csc_matrix :: "'v \<Rightarrow> 'v"
  klu_out :: "'v solver \<Rightarrow> 'v solver_out"

text \<open>\<open>Vm * np.exp(1j * Va)\<close>, elementwise.\<close>

definition polar_V :: "real list \<Rightarrow> real list \<Rightarrow> complex list" where
  "polar_V Vm Va = map2 (\<lambda>vm va. complex_of_real vm * exp (\<i> * complex_of_real va)) Vm Va"

section \<open>\<open>newtonpf\<close>\<close>

text \<open>
  The solver instances alive in the process, in the order of their creation;
  \<open>KLUSolver()\<close> appends a new one, which has received no call, and returns its
  position.
\<close>

type_synonym 'v heap = "'v solver list"

definition KLUSolver :: "'v heap \<Rightarrow> nat \<times> 'v heap" where
  "KLUSolver h = (length h, h @ [[]])"

definition call_solver :: "nat \<Rightarrow> 'v solver_call \<Rightarrow> 'v heap \<Rightarrow> 'v heap" where
  "call_solver sid c h = h[sid := h ! sid @ [c]]"

text \<open>
  \<open>newtonpf(Ybus, V, Sbus, pv, pq, ppci, options)\<close>, run in a process whose solver
  instances are \<open>h\<close>; it returns its result and the instances afterwards.
\<close>

definition newtonpf ::
  "'v env \<Rightarrow> 'v \<Rightarrow> complex list \<Rightarrow> 'v \<Rightarrow> 'v \<Rightarrow> 'v \<Rightarrow> 'v \<Rightarrow> pydict \<Rightarrow> 'v heap
     \<Rightarrow> (error + complex list \<times> bool \<times> nat \<times> 'v) \<times> 'v heap" where
  "newtonpf env Ybus V Sbus pv pq ppci options h =
     (case getitem options ''max_iteration'' of
        Inl e \<Rightarrow> (Inl e, h)
      | Inr max_it \<Rightarrow>
     (case getitem options ''tolerance_mva'' of
        Inl e \<Rightarrow> (Inl e, h)
      | Inr tol \<Rightarrow>
     (case KLUSolver h of (solver, h) \<Rightarrow>
      let Ybus = csc_matrix env Ybus;
          h = call_solver solver (Solve Ybus V Sbus pv pq max_it tol) h;
          Va = get_Va (klu_out env (h ! solver));
          Vm = get_Vm (klu_out env (h ! solver));
          V = polar_V Vm Va;
          J = so_J (klu_out env (h ! solver));
          converged = so_converged (klu_out env (h ! solver));
          iterations = so_nb_iter (klu_out env (h ! solver))
      in (Inr (V, converged, iterations, J), h))))"

section \<open>\<open>KLU4Pandapower\<close>\<close>

record 'v klu4pp =
  k_solver :: "'v solver"
  k_ppci :: "'v option"
  k_V :: "complex list option"
  k_Ybus :: "'v option"
  k_pv :: "'v option"
  k_pq :: "'v option"
  k_Yf :: "'v option"
  k_Yt :: "'v option"
  k_bus :: "'v option"
  k_gen :: "'v option"
  k_branch :: "'v option"
  k_ref :: "'v option"
  k_ref_gens :: "'v option"
  k_baseMVA :: "'v option"

text \<open>\<open>__init__\<close>: a new solver, every other attribute \<open>None\<close>.\<close>

definition klu4pp_init :: "'v klu4pp" where
  "klu4pp_init =
     \<lparr>k_solver = [], k_ppci = None, k_V = None, k_Ybus = None, k_pv = None, k_pq = None,
      k_Yf = None, k_Yt = None, k_bus = None, k_gen = None, k_branch = None, k_ref = None,
      k_ref_gens = None, k_baseMVA = None\<rparr>"

text \<open>
  The keywords \<open>runpp\<close> passes to \<open>_init_runpp_options\<close> by name beside \<open>**kwargs\<close>:
  Python raises TypeError when \<open>kwargs\<close> holds one of them a second time.
\<close>

definition fixed_keywords :: "string list" where
  "fixed_keywords =
     [''algorithm'', ''calculate_voltage_angles'', ''init'', ''max_iteration'',
      ''tolerance_mva'', ''trafo_model'', ''trafo_loading'', ''enforce_q_lims'',
      ''check_connectivity'', ''voltage_depend_loads'', ''consider_line_temperature'',
      ''passed_parameters'', ''numba'']"

text \<open>
  A method that raises leaves the object and the network as they are at that moment.
  The error of \<open>runpp\<close> and of its parts therefore carries them: \<open>Inl (e, state)\<close> is the
  raise of \<open>e\<close> in \<open>state\<close>.
\<close>

definition raise_at :: "'s \<Rightarrow> error + 'a \<Rightarrow> error \<times> 's + 'a" where
  "raise_at st r = (case r of Inl e \<Rightarrow> Inl (e, st) | Inr x \<Rightarrow> Inr x)"

definition with_net :: "'n \<Rightarrow> error \<times> 's + 'a \<Rightarrow> error \<times> 's \<times> 'n + 'a" where
  "with_net net r = (case r of Inl (e, st) \<Rightarrow> Inl (e, st, net) | Inr x \<Rightarrow> Inr x)"

text \<open>
  Lines 70 to 109: the options and the results tables. It returns the network; a raise
  carries the network. The two \<open>_check_..._and_print_warning_if_high\<close> calls only print,
  and the wall-clock readings are left out.
\<close>

definition runpp_tables ::
  "'v env \<Rightarrow> 'v net \<Rightarrow> pyval \<Rightarrow> bool \<Rightarrow> pydict \<Rightarrow> error \<times> 'v net + 'v net" where
  "runpp_tables env net max_iteration need_reset kwargs =
     (if list_ex (\<lambda>k. kwargs k \<noteq> None) fixed_keywords then Inl (TypeError, net)
      else
        let net = init_runpp_options env net max_iteration need_reset kwargs in
        bind_err (raise_at net (getitem (n_options net) ''init_results'')) (\<lambda>init_results.
        bind_err (raise_at net (getitem (n_options net) ''ac'')) (\<lambda>ac.
        bind_err (raise_at net (getitem (n_options net) ''algorithm'')) (\<lambda>algorithm.
          let net = net\<lparr>n_converged := False\<rparr>;
              net = net\<lparr>n_OPF_converged := False\<rparr>;
              net = add_auxiliary_elements env net;
              net = (if \<not> truthy ac \<or> truthy init_results
                     then verify_results env net else reset_results env net);
              net = (if \<not> (algorithm = PyStr ''nr'' \<or> algorithm = PyStr ''bfsw'')
                     then net\<lparr>n_options := (n_options net)(''voltage_depend_loads'' \<mapsto> PyBool False)\<rparr>
                     else net);
              net = add_auxiliary_elements env net
          in Inr net))))"

text \<open>
  Lines 110 to 121: the conversion of the network. It returns the object, the
  network, the options and \<open>self.ppci\<close>. The entry \<open>VERBOSE\<close> that line 117 adds to
  \<open>kwargs\<close> is read nowhere afterwards.
\<close>

definition runpp_prepare ::
  "'v env \<Rightarrow> 'v klu4pp \<Rightarrow> 'v net \<Rightarrow> pyval \<Rightarrow> bool \<Rightarrow> pydict
     \<Rightarrow> error \<times> 'v klu4pp \<times> 'v net + 'v klu4pp \<times> 'v net \<times> pydict \<times> 'v" where
  "runpp_prepare env self net max_iteration need_reset kwargs =
     (case runpp_tables env net max_iteration need_reset kwargs of
        Inl (e, net) \<Rightarrow> Inl (e, self, net)
      | Inr net \<Rightarrow>
          (case pd2ppc env net of (ppc, ppci, net) \<Rightarrow>
             let self = self\<lparr>k_ppci := Some ppci\<rparr>;
                 net = net\<lparr>n_ppc := Some ppc\<rparr>;
                 options = n_options net
             in Inr (self, net, options, ppci)))"

text \<open>
  Lines 128 to 140, the body of \<open>if need_reset:\<close>. It returns the object, \<open>self.ppci\<close>
  and \<open>V0\<close>.
\<close>

definition runpp_reset ::
  "'v env \<Rightarrow> 'v klu4pp \<Rightarrow> 'v \<Rightarrow> pydict \<Rightarrow> error \<times> 'v klu4pp + 'v klu4pp \<times> 'v \<times> complex list" where
  "runpp_reset env self ppci options =
     bind_err (raise_at self (getitem options ''init_va_degree'')) (\<lambda>init_va_degree.
       let ppci = (if init_va_degree = PyStr ''dc'' then run_dc_pf env ppci else ppci);
           self = self\<lparr>k_ppci := Some ppci\<rparr>
       in
       bind_err (raise_at self (getitem options ''enforce_q_lims'')) (\<lambda>enforce_q_lims.
         if truthy enforce_q_lims then Inl (NotImplementedError, self)
         else
           (case get_numba_functions env ppci options of (makeYbus, pfsoln) \<Rightarrow>
            let pfv = get_pf_variables_from_ppci env ppci;
                self = self\<lparr>k_baseMVA := Some (pf_baseMVA pfv), k_bus := Some (pf_bus pfv),
                            k_gen := Some (pf_gen pfv), k_branch := Some (pf_branch pfv),
                            k_ref := Some (pf_ref pfv), k_pv := Some (pf_pv pfv),
                            k_pq := Some (pf_pq pfv), k_ref_gens := Some (pf_ref_gens pfv)\<rparr>;
                V0 = pf_V0 pfv
            in (case get_Y_bus env ppci options makeYbus (pf_baseMVA pfv) (pf_bus pfv) (pf_branch pfv) of
                  (ppci, Ybus, Yf, Yt) \<Rightarrow>
                    Inr (self\<lparr>k_ppci := Some ppci, k_Ybus := Some Ybus,
                              k_Yf := Some Yf, k_Yt := Some Yt\<rparr>, ppci, V0)))))"

text \<open>
  \<open>None\<close> where scipy or the solver extension expects an array is refused with a
  TypeError before the solver runs.
\<close>

definition required :: "'a option \<Rightarrow> error + 'a" where
  "required x = (case x of None \<Rightarrow> Inl TypeError | Some v \<Rightarrow> Inr v)"

text \<open>
  Lines 146 to 173: the injections, the reset of the solver or the reuse of the
  previous voltages, the solve and the reading of its results. It returns the object
  with the values that the rest of \<open>runpp\<close> stores. \<open>V0\<close> is read only when
  \<open>need_reset\<close> holds.
\<close>

definition runpp_solve ::
  "'v env \<Rightarrow> 'v klu4pp \<Rightarrow> 'v \<Rightarrow> pydict \<Rightarrow> bool \<Rightarrow> complex list
     \<Rightarrow> error \<times> 'v klu4pp + 'v klu4pp \<times> 'v \<times> 'v \<times> bool \<times> nat \<times> 'v" where
  "runpp_solve env self ppci options need_reset V0 =
     (let Sbus = get_Sbus env ppci False in
      bind_err (raise_at self (getitem options ''max_iteration'')) (\<lambda>max_it.
      bind_err (raise_at self (getitem options ''tolerance_mva'')) (\<lambda>tol.
      bind_err (raise_at self (required (k_Ybus self))) (\<lambda>Ybus.
        let Ybus = csc_matrix env Ybus;
            self = self\<lparr>k_Ybus := Some Ybus\<rparr>;
            self = (if need_reset
                    then self\<lparr>k_solver := k_solver self @ [Reset], k_V := Some V0\<rparr>
                    else self)
        in
        bind_err (raise_at self (required (k_V self))) (\<lambda>V.
        bind_err (raise_at self (required (k_pv self))) (\<lambda>pv.
        bind_err (raise_at self (required (k_pq self))) (\<lambda>pq.
          let self = self\<lparr>k_solver := k_solver self @ [Solve Ybus V Sbus pv pq max_it tol]\<rparr>;
              Va = get_Va (klu_out env (k_solver self));
              Vm = get_Vm (klu_out env (k_solver self));
              self = self\<lparr>k_V := Some (polar_V Vm Va)\<rparr>;
              J = so_J (klu_out env (k_solver self));
              success = so_converged (klu_out env (k_solver self));
              iterations = so_nb_iter (klu_out env (k_solver self));
              timers = so_timers (klu_out env (k_solver self))
          in Inr (self, Sbus, J, success, iterations, timers))))))))"

definition entry_of :: "'v option \<Rightarrow> 'v entry" where
  "entry_of x = (case x of None \<Rightarrow> ENone | Some v \<Rightarrow> EData v)"

text \<open>Lines 179 to 214: the results go into \<open>ppci\<close> and from there into the network.\<close>

definition runpp_store ::
  "'v env \<Rightarrow> 'v klu4pp \<Rightarrow> 'v net \<Rightarrow> 'v \<Rightarrow> pydict \<Rightarrow> 'v \<Rightarrow> 'v \<Rightarrow> bool \<Rightarrow> nat \<Rightarrow> 'v
     \<Rightarrow> 'v klu4pp \<times> 'v net" where
  "runpp_store env self net ppci options Sbus J success iterations timers =
     (let ppci = store_internal env ppci
            [(''J'', EData J), (''Vm_it'', ENone), (''Va_it'', ENone),
             (''bus'', entry_of (k_bus self)), (''gen'', entry_of (k_gen self)),
             (''branch'', entry_of (k_branch self)), (''baseMVA'', entry_of (k_baseMVA self)),
             (''V'', (case k_V self of None \<Rightarrow> ENone | Some V \<Rightarrow> EVolt V)),
             (''pv'', entry_of (k_pv self)), (''pq'', entry_of (k_pq self)),
             (''ref'', entry_of (k_ref self)), (''Sbus'', EData Sbus),
             (''ref_gens'', entry_of (k_ref_gens self)), (''Ybus'', entry_of (k_Ybus self)),
             (''Yf'', entry_of (k_Yf self)), (''Yt'', entry_of (k_Yt self)),
             (''timers'', EData timers), (''time_get_res'', ETime), (''time_solve'', ETime),
             (''time_init'', ETime), (''time_init_dc'', ETime), (''time_early_init'', ETime),
             (''time_options'', ETime)];
          self = self\<lparr>k_ppci := Some ppci\<rparr>
      in (case ppci_to_pfsoln env ppci options of (bus, gen, branch) \<Rightarrow>
          let self = self\<lparr>k_bus := Some bus, k_gen := Some gen, k_branch := Some branch\<rparr>;
              result = store_results_from_pf_in_ppci env ppci bus gen branch success iterations;
              net = ppci_to_net env result net;
              ppci = store_internal env ppci
                [(''time_store_res'', ETime), (''time_to_net'', ETime), (''time_all'', ETime),
                 (''time_ppci_to_pfsoln'', ETime)]
          in (self\<lparr>k_ppci := Some ppci\<rparr>, net)))"

text \<open>
  \<open>runpp(self, net, max_iteration, need_reset, **kwargs)\<close>: \<open>Inr\<close> with the object and
  the network when the call returns, \<open>Inl\<close> with the error, the object and the network
  when it raises.
\<close>

definition runpp ::
  "'v env \<Rightarrow> 'v klu4pp \<Rightarrow> 'v net \<Rightarrow> pyval \<Rightarrow> bool \<Rightarrow> pydict
     \<Rightarrow> error \<times> 'v klu4pp \<times> 'v net + 'v klu4pp \<times> 'v net" where
  "runpp env self net max_iteration need_reset kwargs =
     bind_err (runpp_prepare env self net max_iteration need_reset kwargs)
       (\<lambda>(self, net, options, ppci).
     bind_err (with_net net
                 (if need_reset then runpp_reset env self ppci options
                  else Inr (self, ppci, [])))
       (\<lambda>(self, ppci, V0).
     bind_err (with_net net (runpp_solve env self ppci options need_reset V0))
       (\<lambda>(self, Sbus, J, success, iterations, timers).
     Inr (runpp_store env self net ppci options Sbus J success iterations timers))))"

section \<open>Notions used in the statements\<close>

text \<open>The positions of the elements of a table whose \<open>in_service\<close> flag is false.\<close>

definition out_of_service :: "bool list \<Rightarrow> nat list" where
  "out_of_service in_service = map fst (filter (\<lambda>p. \<not> snd p) (enumerate 0 in_service))"





fun is_add_gen_slackbus :: "'a gm_call \<Rightarrow> bool" where
  "is_add_gen_slackbus (AddGenSlackbus a) = True"
| "is_add_gen_slackbus c = False"

definition zero_if_not_finite :: "float64 \<Rightarrow> float64" where
  "zero_if_not_finite v = (if np_isfinite v then v else Fin 0)"

text \<open>Every bus label that \<open>init\<close> looks up is a label of the bus table.\<close>

definition labels_found :: "pp_net \<Rightarrow> bool" where
  "labels_found pp_net =
     (set (map l_from_bus (pp_line pp_net)) \<union> set (map l_to_bus (pp_line pp_net))
        \<union> set (map t_lv_bus (pp_trafo pp_net)) \<subseteq> set (map b_index (pp_bus pp_net)))"

section \<open>Concrete inputs\<close>

text \<open>A converter that hands three of its arguments back, and small networks.\<close>

definition plain_converter :: "float64 list converter" where
  "plain_converter =
     \<lparr>get_line_param = (\<lambda>sn f r x c g vn_from vn_to. (r, x, c)),
      get_trafo_param = (\<lambda>sn f vn_hv vn_lv vk vkr s pfe i0 vn. (vk, vkr, i0))\<rparr>"

definition bus0 :: bus_row where
  "bus0 = \<lparr>b_index = 0, b_vn_kv = Fin 110\<rparr>"

definition bus1 :: bus_row where
  "bus1 = \<lparr>b_index = 1, b_vn_kv = Fin 20\<rparr>"

definition line01 :: line_row where
  "line01 = \<lparr>l_r_ohm_per_km = Fin 2, l_x_ohm_per_km = Fin 3, l_c_nf_per_km = Fin 0,
             l_g_us_per_km = Fin 0, l_length_km = Fin 5, l_from_bus = 0, l_to_bus = 1,
             l_in_service = False\<rparr>"

definition trafo01 :: trafo_row where
  "trafo01 = \<lparr>t_vn_hv_kv = Fin 110, t_vn_lv_kv = Fin 20, t_vk_percent = Fin 12,
              t_vkr_percent = Fin 1, t_sn_mva = Fin 40, t_pfe_kw = Fin 14, t_i0_percent = Fin 0,
              t_tap_step_percent = NaN, t_tap_pos = PInf, t_tap_side = Some ''lv'',
              t_hv_bus = 0, t_lv_bus = 1, t_in_service = True\<rparr>"

definition load1 :: load_row where
  "load1 = \<lparr>ld_p_mw = Fin 10, ld_q_mvar = Fin 2, ld_bus = 1, ld_in_service = True\<rparr>"

definition gen1 :: gen_row where
  "gen1 = \<lparr>g_p_mw = Fin 4, g_vm_pu = Fin 1, g_min_q_mvar = Fin (- 5), g_max_q_mvar = Fin 5,
           g_bus = 1, g_in_service = False, g_slack = False\<rparr>"

definition ext_grid0 :: ext_grid_row where
  "ext_grid0 = \<lparr>e_bus = 0, e_vm_pu = Fin 1.02\<rparr>"

text \<open>Two buses, a line and a transformer between them, a load and a generator on bus 1,
  the external grid on bus 0.\<close>

definition small_net :: pp_net where
  "small_net =
     \<lparr>pp_sn_mva = Fin 1, pp_f_hz = Fin 50, pp_bus = [bus0, bus1], pp_line = [line01],
      pp_trafo = [trafo01], pp_shunt = [], pp_load = [load1], pp_gen = [gen1],
      pp_ext_grid = [ext_grid0]\<rparr>"

text \<open>The same with two generators that both carry the slack flag.\<close>

definition two_slack_net :: pp_net where
  "two_slack_net =
     small_net\<lparr>pp_gen := [gen1\<lparr>g_slack := True\<rparr>, gen1\<lparr>g_bus := 0, g_slack := True\<rparr>]\<rparr>"

text \<open>The same with a load of unknown power and a line of infinite resistance.\<close>

definition not_finite_net :: pp_net where
  "not_finite_net =
     small_net\<lparr>pp_line := [line01\<lparr>l_r_ohm_per_km := PInf\<rparr>],
               pp_load := [load1\<lparr>ld_p_mw := NaN\<rparr>]\<rparr>"

text \<open>The same with the transformer's high-voltage side on a bus that does not exist.\<close>

definition no_hv_bus_net :: pp_net where
  "no_hv_bus_net = small_net\<lparr>pp_trafo := [trafo01\<lparr>t_hv_bus := 99\<rparr>]\<rparr>"

text \<open>The same with the line ending on a bus that does not exist.\<close>

definition no_to_bus_net :: pp_net where
  "no_to_bus_net = small_net\<lparr>pp_line := [line01\<lparr>l_to_bus := 7\<rparr>]\<rparr>"

text \<open>
  Pandapower, scipy and the solver over natural numbers: the conversion of a network
  gives its data plus 100, its injections are that plus 7, its admittance matrix that
  plus 1000. The network's own options ask for reactive limits when its data is 1. The
  solver reports as many iterations as it has received calls.
\<close>

definition example_options :: "pyval \<Rightarrow> bool \<Rightarrow> pydict" where
  "example_options max_iteration q =
     [''init_results'' \<mapsto> PyBool False, ''ac'' \<mapsto> PyBool True, ''algorithm'' \<mapsto> PyStr ''nr'',
      ''init_va_degree'' \<mapsto> PyStr ''flat'', ''enforce_q_lims'' \<mapsto> PyBool q,
      ''max_iteration'' \<mapsto> max_iteration, ''tolerance_mva'' \<mapsto> PyFloat (1 / 100000000)]"

definition example_env :: "nat env" where
  "example_env =
     \<lparr>init_runpp_options =
        (\<lambda>net max_iteration need_reset kwargs.
           net\<lparr>n_options := example_options max_iteration (n_data net = 1)\<rparr>),
      add_auxiliary_elements = (\<lambda>net. net),
      verify_results = (\<lambda>net. net),
      reset_results = (\<lambda>net. net),
      pd2ppc = (\<lambda>net. (n_data net, n_data net + 100, net)),
      run_dc_pf = (\<lambda>ppci. ppci),
      get_numba_functions = (\<lambda>ppci options. (0, 0)),
      get_pf_variables_from_ppci =
        (\<lambda>ppci. \<lparr>pf_baseMVA = 1, pf_bus = ppci, pf_gen = ppci, pf_branch = ppci, pf_ref = 0,
                  pf_pv = 1, pf_pq = 2, pf_on = 0, pf_gbus = 0, pf_V0 = [1, 1],
                  pf_ref_gens = 0\<rparr>),
      get_Y_bus = (\<lambda>ppci options makeYbus baseMVA bus branch. (ppci, ppci + 1000, 0, 0)),
      get_Sbus = (\<lambda>ppci b. ppci + 7),
      store_internal = (\<lambda>ppci entries. ppci),
      ppci_to_pfsoln = (\<lambda>ppci options. (ppci, ppci, ppci)),
      store_results_from_pf_in_ppci = (\<lambda>ppci bus gen branch success iterations. ppci),
      ppci_to_net = (\<lambda>result net. net),
      csc_matrix = (\<lambda>m. m),
      klu_out =
        (\<lambda>calls. \<lparr>so_V = [(1, 0), (real (length calls), 0)], so_J = 0, so_converged = True,
                   so_nb_iter = length calls, so_timers = 0\<rparr>)\<rparr>"

definition example_net :: "nat \<Rightarrow> nat net" where
  "example_net d =
     \<lparr>n_options = Map.empty, n_converged = False, n_OPF_converged = False, n_ppc = None,
      n_data = d\<rparr>"

text \<open>The object after one \<open>runpp\<close> with \<open>need_reset=True\<close> on the network of data 0.\<close>

definition warm_self :: "nat klu4pp" where
  "warm_self =
     \<lparr>k_solver = [Reset, Solve 1100 [1, 1] 107 1 2 (PyInt 10) (PyFloat (1 / 100000000))],
      k_ppci = Some 100, k_V = Some [1, 2], k_Ybus = Some 1100, k_pv = Some 1, k_pq = Some 2,
      k_Yf = Some 0, k_Yt = Some 0, k_bus = Some 100, k_gen = Some 100, k_branch = Some 100,
      k_ref = Some 0, k_ref_gens = Some 0, k_baseMVA = Some 1\<rparr>"

section \<open>Facts about the parts of \<open>init\<close>\<close>


lemma deactivate_loop_eq:
  "deactivate_loop f i flags model =
     model @ map f (map fst (filter (\<lambda>p. \<not> snd p) (enumerate i flags)))"
  by (induction flags arbitrary: i model) simp_all

lemma deactivate_loop_0:
  "deactivate_loop f 0 flags model = model @ map f (out_of_service flags)"
  by (simp add: deactivate_loop_eq out_of_service_def)



lemma mask_assign_map:
  "mask_assign (map P xs) v xs = map (\<lambda>x. if P x then v else x) xs"
  by (induction xs) (simp_all add: mask_assign_def)

lemma mask_assign_map2:
  "mask_assign (map P xs) v (map f xs) = map (\<lambda>x. if P x then v else f x) xs"
  by (induction xs) (simp_all add: mask_assign_def)

lemma np_isfinite_zero_if_not_finite: "np_isfinite (zero_if_not_finite v)"
  by (simp add: zero_if_not_finite_def)

lemma trafo_taps_eq:
  "trafo_taps trafos =
     (map (\<lambda>t. zero_if_not_finite (t_tap_step_percent t)) trafos,
      map (\<lambda>t. zero_if_not_finite (t_tap_pos t)) trafos,
      map (\<lambda>t. t_tap_side t = Some ''hv'') trafos)"
proof -
  have a: "mask_assign (map (\<lambda>v. \<not> np_isfinite v) (map f trafos)) (Fin 0) (map f trafos)
        = map (\<lambda>t. zero_if_not_finite (f t)) trafos" for f :: "trafo_row \<Rightarrow> float64"
    by (induction trafos) (simp_all add: mask_assign_def zero_if_not_finite_def)
  have b: "mask_assign (map (\<lambda>v. \<not> np_isfinite v) (map (\<lambda>t. zero_if_not_finite (f t)) trafos)) True (map g trafos)
        = map g trafos" for f :: "trafo_row \<Rightarrow> float64" and g :: "trafo_row \<Rightarrow> bool"
    by (induction trafos) (simp_all add: mask_assign_def np_isfinite_zero_if_not_finite)
  show ?thesis
    by (simp only: trafo_taps_def Let_def a b)
qed

lemma bus_loc_cases:
  "bus_loc buses labels = Inl KeyError \<or> (\<exists>vs. bus_loc buses labels = Inr vs)"
  by (simp add: bus_loc_def)

lemma bus_loc_Inr_iff:
  "(\<exists>vs. bus_loc buses labels = Inr vs) \<longleftrightarrow> set labels \<subseteq> set (map b_index buses)"
  by (auto simp: bus_loc_def list_all_iff)

lemma bus_loc_Inl_iff:
  "bus_loc buses labels = Inl e \<longleftrightarrow> e = KeyError \<and> \<not> set labels \<subseteq> set (map b_index buses)"
  by (auto simp: bus_loc_def list_all_iff)


lemma init_elements_eq:
  "init_elements pp (lr, lx, lh) (tr, tx, tb) =
     [InitBus (bus_vn_kv_sorted (pp_bus pp)) (length (pp_line pp)) (length (pp_trafo pp)),
      InitPowerlines lr lx lh (map l_from_bus (pp_line pp)) (map l_to_bus (pp_line pp))]
     @ map DeactivatePowerline (out_of_service (map l_in_service (pp_line pp)))
     @ [InitShunt (map s_p_mw (pp_shunt pp)) (map s_q_mvar (pp_shunt pp)) (map s_bus (pp_shunt pp))]
     @ map DeactivateShunt (out_of_service (map s_in_service (pp_shunt pp)))
     @ [InitTrafo tr tx tb (map (\<lambda>t. zero_if_not_finite (t_tap_step_percent t)) (pp_trafo pp))
          (map (\<lambda>t. zero_if_not_finite (t_tap_pos t)) (pp_trafo pp))
          (map (\<lambda>t. t_tap_side t = Some ''hv'') (pp_trafo pp))
          (map t_hv_bus (pp_trafo pp)) (map t_lv_bus (pp_trafo pp))]
     @ map DeactivateTrafo (out_of_service (map t_in_service (pp_trafo pp)))
     @ [InitLoads (map ld_p_mw (pp_load pp)) (map ld_q_mvar (pp_load pp)) (map ld_bus (pp_load pp))]
     @ map DeactivateLoad (out_of_service (map ld_in_service (pp_load pp)))
     @ [InitGenerators (map g_p_mw (pp_gen pp)) (map g_vm_pu (pp_gen pp))
          (map g_min_q_mvar (pp_gen pp)) (map g_max_q_mvar (pp_gen pp)) (map g_bus (pp_gen pp))]
     @ map DeactivateGen (out_of_service (map g_in_service (pp_gen pp)))"
  by (simp only: init_elements_def trafo_taps_eq Let_def deactivate_loop_0 prod.case append_Nil append_assoc append_Cons)

text \<open>The calls of the slack part, on their own.\<close>

lemma init_slack_append:
  "init_slack pp model = (case init_slack pp [] of Inl e \<Rightarrow> Inl e | Inr calls \<Rightarrow> Inr (model @ calls))"
  by (simp add: init_slack_def Let_def split: list.split)

lemma np_any_map: "np_any (map P xs) \<longleftrightarrow> (\<exists>x\<in>set xs. P x)"
  by (simp add: np_any_def list_ex_iff)

lemma line_param_cases:
  "(set (map l_from_bus (pp_line pp)) \<union> set (map l_to_bus (pp_line pp)) \<subseteq> set (map b_index (pp_bus pp))
      \<and> (\<exists>lp. line_param cv pp = Inr lp))
   \<or> (\<not> set (map l_from_bus (pp_line pp)) \<union> set (map l_to_bus (pp_line pp)) \<subseteq> set (map b_index (pp_bus pp))
      \<and> line_param cv pp = Inl KeyError)"
  by (auto simp: line_param_def bind_err_def bus_loc_def list_all_iff simp del: split_paired_Ex)

lemma trafo_param_cases:
  "(set (map t_lv_bus (pp_trafo pp)) \<subseteq> set (map b_index (pp_bus pp))
      \<and> (\<exists>tp. trafo_param cv pp = Inr tp))
   \<or> (\<not> set (map t_lv_bus (pp_trafo pp)) \<subseteq> set (map b_index (pp_bus pp))
      \<and> trafo_param cv pp = Inl KeyError)"
  by (auto simp: trafo_param_def bind_err_def bus_loc_def list_all_iff simp del: split_paired_Ex)

lemma init_not_found: "\<not> labels_found pp \<Longrightarrow> init cv pp = Inl KeyError"
  using line_param_cases [of pp cv] trafo_param_cases [of pp cv]
  by (auto simp: init_def bind_err_def labels_found_def)

lemma init_found:
  "labels_found pp \<Longrightarrow>
     \<exists>lp tp. line_param cv pp = Inr lp \<and> trafo_param cv pp = Inr tp
       \<and> init cv pp = init_slack pp (init_elements pp lp tp)"
  using line_param_cases [of pp cv] trafo_param_cases [of pp cv]
  by (auto simp: init_def bind_err_def labels_found_def)

lemma init_Inr_shape:
  assumes "init cv pp = Inr model"
  shows "\<exists>lp tp calls. labels_found pp \<and> line_param cv pp = Inr lp \<and> trafo_param cv pp = Inr tp
           \<and> init_slack pp [] = Inr calls \<and> model = init_elements pp lp tp @ calls"
proof -
  have lf: "labels_found pp"
    using assms init_not_found [of pp cv] by auto
  then obtain lp tp where p: "line_param cv pp = Inr lp" "trafo_param cv pp = Inr tp"
      "init cv pp = init_slack pp (init_elements pp lp tp)"
    using init_found [of pp cv] by blast
  with assms have "init_slack pp (init_elements pp lp tp) = Inr model" by simp
  then obtain calls where "init_slack pp [] = Inr calls" "model = init_elements pp lp tp @ calls"
    by (subst (asm) init_slack_append) (auto split: sum.splits)
  with lf p show ?thesis by blast
qed


lemma init_slack_nil:
  "init_slack pp ([] :: 'a grid_model) =
     (if \<exists>g\<in>set (pp_gen pp). g_slack g
      then Inr [ChangeVGen (np_where (map g_slack (pp_gen pp)))
                  (map (\<lambda>i. map g_vm_pu (pp_gen pp) ! i) (np_where (map g_slack (pp_gen pp)))),
                AddGenSlackbus (IdArray (np_where (map g_slack (pp_gen pp))))]
      else (case pp_ext_grid pp of
              [] \<Rightarrow> Inl IndexError
            | e # es \<Rightarrow>
                if \<exists>g\<in>set (pp_gen pp). g_bus g = e_bus e
                then Inr [AddGenSlackbus (IdArray (np_where (map (\<lambda>g. g_bus g = e_bus e) (pp_gen pp))))]
                else Inr [InitGenerators
                            (map g_p_mw (pp_gen pp)
                               @ [fsub (np_sum (map ld_p_mw (pp_load pp))) (np_sum (map g_p_mw (pp_gen pp)))])
                            (map g_vm_pu (pp_gen pp) @ [e_vm_pu e])
                            (map g_min_q_mvar (pp_gen pp) @ [Fin (- 999999)])
                            (map g_max_q_mvar (pp_gen pp) @ [Fin 99999])
                            (map g_bus (pp_gen pp) @ [e_bus e]),
                          AddGenSlackbus (IdScalar (length (pp_gen pp)))]))"
  by (simp add: init_slack_def Let_def np_any_map split: list.split)

lemma no_slack_call_in_elements:
  "\<not> list_ex is_add_gen_slackbus (init_elements pp lp tp)"
  by (cases lp, cases tp) (auto simp: init_elements_eq list_ex_iff)


lemmas concrete_defs =
  plain_converter_def bus0_def bus1_def line01_def trafo01_def load1_def gen1_def ext_grid0_def
  small_net_def two_slack_net_def not_finite_net_def no_hv_bus_net_def no_to_bus_net_def

section \<open>The synthetic slack generator\<close>



lemma init_slack_calls_cases:
  assumes "init_slack pp ([] :: 'a grid_model) = Inr calls"
  shows "(\<exists>ids vs. calls = [ChangeVGen ids vs, AddGenSlackbus (IdArray ids)])
       \<or> (\<exists>ids. calls = [AddGenSlackbus (IdArray ids)])
       \<or> (\<exists>e es. pp_ext_grid pp = e # es \<and> calls = [InitGenerators
                            (map g_p_mw (pp_gen pp)
                               @ [fsub (np_sum (map ld_p_mw (pp_load pp))) (np_sum (map g_p_mw (pp_gen pp)))])
                            (map g_vm_pu (pp_gen pp) @ [e_vm_pu e])
                            (map g_min_q_mvar (pp_gen pp) @ [Fin (- 999999)])
                            (map g_max_q_mvar (pp_gen pp) @ [Fin 99999])
                            (map g_bus (pp_gen pp) @ [e_bus e]),
                          AddGenSlackbus (IdScalar (length (pp_gen pp)))])"
  using assms by (auto simp: init_slack_nil split: if_splits list.splits)


lemma InitTrafo_in_model:
  assumes "init cv pp = Inr model"
  shows "InitTrafo r x b ts tp hv hb lb \<in> set model \<longleftrightarrow>
           trafo_param cv pp = Inr (r, x, b)
         \<and> ts = map (\<lambda>t. zero_if_not_finite (t_tap_step_percent t)) (pp_trafo pp)
         \<and> tp = map (\<lambda>t. zero_if_not_finite (t_tap_pos t)) (pp_trafo pp)
         \<and> hv = map (\<lambda>t. t_tap_side t = Some ''hv'') (pp_trafo pp)
         \<and> hb = map t_hv_bus (pp_trafo pp) \<and> lb = map t_lv_bus (pp_trafo pp)"
proof -
  obtain lp tpar calls where s: "line_param cv pp = Inr lp" "trafo_param cv pp = Inr tpar"
      "init_slack pp ([] :: 'a grid_model) = Inr calls" "model = init_elements pp lp tpar @ calls"
    using init_Inr_shape [OF assms] by blast
  have c: "InitTrafo r x b ts tp hv hb lb \<notin> set calls"
    using init_slack_calls_cases [OF s(3)] by auto
  show ?thesis
    using c by (cases lp, cases tpar) (auto simp: s init_elements_eq)
qed

section \<open>The tap side of the transformers\<close>

text \<open>
  Claim C9. In every model that \<open>init\<close> returns, the tap-side array given to
  \<open>init_trafo\<close> is, entry by entry, the comparison of \<open>tap_side\<close> with \<open>"hv"\<close>: when
  the mask \<open>~np.isfinite(tap_pos)\<close> of line 107 is computed, \<open>tap_pos\<close> has no
  non-finite entry left, so the assignment that follows changes nothing, also for a
  transformer whose \<open>tap_pos\<close> was not finite in the network.
\<close>

theorem tap_side_override_never_applies:
  assumes "init cv pp = Inr model"
  shows "(\<exists>r x b ts tp hb lb.
            InitTrafo r x b ts tp (map (\<lambda>t. t_tap_side t = Some ''hv'') (pp_trafo pp)) hb lb \<in> set model)
       \<and> (\<forall>r x b ts tp hv hb lb.
            InitTrafo r x b ts tp hv hb lb \<in> set model
              \<longrightarrow> hv = map (\<lambda>t. t_tap_side t = Some ''hv'') (pp_trafo pp))
       \<and> \<not> list_ex (\<lambda>v. \<not> np_isfinite v) (fst (snd (trafo_taps (pp_trafo pp))))
       \<and> snd (snd (trafo_taps (pp_trafo pp))) = map (\<lambda>t. t_tap_side t = Some ''hv'') (pp_trafo pp)"
proof -
  obtain tpar where t: "trafo_param cv pp = Inr tpar"
    using init_Inr_shape [OF assms] by blast
  obtain r x b where tpar: "tpar = (r, x, b)" by (cases tpar)
  have 1: "\<exists>r x b ts tp hb lb.
            InitTrafo r x b ts tp (map (\<lambda>t. t_tap_side t = Some ''hv'') (pp_trafo pp)) hb lb \<in> set model"
    unfolding InitTrafo_in_model [OF assms] using t tpar by blast
  have 2: "\<forall>r x b ts tp hv hb lb.
            InitTrafo r x b ts tp hv hb lb \<in> set model
              \<longrightarrow> hv = map (\<lambda>t. t_tap_side t = Some ''hv'') (pp_trafo pp)"
    unfolding InitTrafo_in_model [OF assms] by blast
  have 3: "\<not> list_ex (\<lambda>v. \<not> np_isfinite v) (fst (snd (trafo_taps (pp_trafo pp))))"
    by (simp add: trafo_taps_eq list_ex_iff np_isfinite_zero_if_not_finite)
  have 4: "snd (snd (trafo_taps (pp_trafo pp))) = map (\<lambda>t. t_tap_side t = Some ''hv'') (pp_trafo pp)"
    by (simp add: trafo_taps_eq)
  from 1 2 3 4 show ?thesis by blast
qed


lemma line_param_small_net:
  "line_param plain_converter small_net = Inr ([Fin 10], [Fin 15], [Fin 0])"
  by (simp add: concrete_defs line_param_def bind_err_def bus_loc_def np_mul_def)

lemma trafo_param_small_net:
  "trafo_param plain_converter small_net = Inr ([Fin 12], [Fin 1], [Fin 0])"
  by (simp add: concrete_defs trafo_param_def bind_err_def bus_loc_def)

lemma init_elements_small_net:
  "init_elements small_net (lr, lx, lh) (tr, tx, tb) =
         [InitBus [Fin 110, Fin 20] 1 1,
          InitPowerlines lr lx lh [0] [1],
          DeactivatePowerline 0,
          InitShunt [] [] [],
          InitTrafo tr tx tb [Fin 0] [Fin 0] [False] [0] [1],
          InitLoads [Fin 10] [Fin 2] [1],
          InitGenerators [Fin 4] [Fin 1] [Fin (- 5)] [Fin 5] [1],
          DeactivateGen 0]"
  by (simp add: init_elements_eq) (simp add: concrete_defs out_of_service_def zero_if_not_finite_def bus_vn_kv_sorted_def)


lemma init_slack_small_net:
  "init_slack small_net ([] :: 'a grid_model) =
     Inr [InitGenerators [Fin 4, Fin 6] [Fin 1, Fin 1.02] [Fin (- 5), Fin (- 999999)]
            [Fin 5, Fin 99999] [1, 0],
          AddGenSlackbus (IdScalar 1)]"
  by (simp add: init_slack_nil) (simp add: concrete_defs np_sum_def fsub_def)



lemma init_small_net:
  "init plain_converter small_net =
     Inr [InitBus [Fin 110, Fin 20] 1 1,
          InitPowerlines [Fin 10] [Fin 15] [Fin 0] [0] [1],
          DeactivatePowerline 0,
          InitShunt [] [] [],
          InitTrafo [Fin 12] [Fin 1] [Fin 0] [Fin 0] [Fin 0] [False] [0] [1],
          InitLoads [Fin 10] [Fin 2] [1],
          InitGenerators [Fin 4] [Fin 1] [Fin (- 5)] [Fin 5] [1],
          DeactivateGen 0,
          InitGenerators [Fin 4, Fin 6] [Fin 1, Fin 1.02] [Fin (- 5), Fin (- 999999)]
            [Fin 5, Fin 99999] [1, 0],
          AddGenSlackbus (IdScalar 1)]"
proof -
  have "init plain_converter small_net
          = init_slack small_net (init_elements small_net ([Fin 10], [Fin 15], [Fin 0])
                                    ([Fin 12], [Fin 1], [Fin 0]))"
    by (simp only: init_def line_param_small_net trafo_param_small_net bind_err_def sum.case)
  also have "\<dots> = (case init_slack small_net ([] :: float64 list grid_model) of
                      Inl e \<Rightarrow> Inl e
                    | Inr calls \<Rightarrow> Inr (init_elements small_net ([Fin 10], [Fin 15], [Fin 0])
                                          ([Fin 12], [Fin 1], [Fin 0]) @ calls))"
    by (rule init_slack_append)
  finally show ?thesis
    by (simp only: init_slack_small_net init_elements_small_net sum.case append_Cons append_Nil)
qed


theorem tap_side_override_never_applies_witness:
  "snd (snd (trafo_taps (pp_trafo small_net))) = [False]
   \<and> t_tap_pos (hd (pp_trafo small_net)) = PInf"
  using tap_side_override_never_applies [OF init_small_net, THEN conjunct2, THEN conjunct2, THEN conjunct2]
  by (simp add: small_net_def trafo01_def)




section \<open>What \<open>init\<close> forwards\<close>



section \<open>Elements out of service\<close>












section \<open>The slack registered by \<open>init\<close>\<close>




lemma no_slack_call_in_model_prefix:
  "\<not> list_ex is_add_gen_slackbus (init_elements pp lp tp @ [InitGenerators p v mn mx b])"
  using no_slack_call_in_elements [of pp lp tp] by (simp add: list_ex_iff)














section \<open>What \<open>init\<close> rejects\<close>














section \<open>\<open>newtonpf\<close>\<close>

lemma getitem_Some: "d k = Some v \<Longrightarrow> getitem d k = Inr v"
  by (simp add: getitem_def)

lemma getitem_None: "d k = None \<Longrightarrow> getitem d k = Inl KeyError"
  by (simp add: getitem_def)

lemma new_solver_calls: "call_solver (length h) c (h @ [[]]) = h @ [[c]]"
  by (simp add: call_solver_def)

lemma newtonpf_eq:
  assumes "options ''max_iteration'' = Some max_it" and "options ''tolerance_mva'' = Some tol"
  shows "newtonpf env Ybus V Sbus pv pq ppci options h =
     (Inr (polar_V (get_Vm (klu_out env [Solve (csc_matrix env Ybus) V Sbus pv pq max_it tol]))
                   (get_Va (klu_out env [Solve (csc_matrix env Ybus) V Sbus pv pq max_it tol])),
           so_converged (klu_out env [Solve (csc_matrix env Ybus) V Sbus pv pq max_it tol]),
           so_nb_iter (klu_out env [Solve (csc_matrix env Ybus) V Sbus pv pq max_it tol]),
           so_J (klu_out env [Solve (csc_matrix env Ybus) V Sbus pv pq max_it tol])),
      h @ [[Solve (csc_matrix env Ybus) V Sbus pv pq max_it tol]])"
  using assms
  by (simp add: newtonpf_def getitem_def KLUSolver_def new_solver_calls Let_def)

lemma newtonpf_KeyError:
  assumes "options ''max_iteration'' = None \<or> options ''tolerance_mva'' = None"
  shows "newtonpf env Ybus V Sbus pv pq ppci options h = (Inl KeyError, h)"
  using assms by (auto simp: newtonpf_def getitem_def split: option.splits)

lemma polar_V_pairs:
  "polar_V (map fst vs) (map snd vs)
     = map (\<lambda>(vm, va). complex_of_real vm * exp (\<i> * complex_of_real va)) vs"
  by (induction vs) (auto simp: polar_V_def)

text \<open>
  Claim C5. For all arguments whose options hold \<open>max_iteration\<close> and \<open>tolerance_mva\<close>,
  \<open>newtonpf\<close> returns the four values \<open>(V, converged, iterations, J)\<close> read from the solver
  after its one \<open>solve\<close> call: \<open>V\<close> is \<open>Vm * exp(j * Va)\<close> entry by entry, \<open>converged\<close> is
  the solver's flag, \<open>iterations\<close> its iteration count and \<open>J\<close> its Jacobian. It returns
  them whatever the flag says: a solve that did not converge is reported in the
  returned flag, not by a raise.
\<close>

theorem newtonpf_returns_result:
  assumes "options ''max_iteration'' = Some max_it" and "options ''tolerance_mva'' = Some tol"
  shows "fst (newtonpf env Ybus V Sbus pv pq ppci options h) =
     (let out = klu_out env [Solve (csc_matrix env Ybus) V Sbus pv pq max_it tol]
      in Inr (map (\<lambda>(vm, va). complex_of_real vm * exp (\<i> * complex_of_real va)) (so_V out),
              so_converged out, so_nb_iter out, so_J out))"
  by (simp add: newtonpf_eq [OF assms] Let_def get_Vm_def get_Va_def polar_V_pairs)

lemma example_options_keys:
  "example_options m q ''max_iteration'' = Some m"
  "example_options m q ''tolerance_mva'' = Some (PyFloat (1 / 100000000))"
  "example_options m q ''init_results'' = Some (PyBool False)"
  "example_options m q ''ac'' = Some (PyBool True)"
  "example_options m q ''algorithm'' = Some (PyStr ''nr'')"
  "example_options m q ''init_va_degree'' = Some (PyStr ''flat'')"
  "example_options m q ''enforce_q_lims'' = Some (PyBool q)"
  by (simp_all add: example_options_def)

theorem newtonpf_returns_result_witness:
  "fst (newtonpf example_env 1100 [1, 1] 107 1 2 100 (example_options (PyInt 10) False) [])
     = Inr ([1, 1], True, 1, 0)"
  using newtonpf_returns_result [of "example_options (PyInt 10) False" "PyInt 10"
      "PyFloat (1 / 100000000)" example_env 1100 "[1, 1]" 107 1 2 100 "[]"]
  by (simp add: example_options_keys) (simp add: example_env_def)

text \<open>
  Claim C10. \<open>newtonpf\<close> creates its own solver on every call and leaves the solvers that
  exist alone: its result is the same in every process state, so two calls with equal
  arguments return equal results whatever was called before, and afterwards the
  process holds the solvers it held before plus, when the two options were there, one
  new solver that has received the single \<open>solve\<close> call.
\<close>

theorem newtonpf_stateless:
  "fst (newtonpf env Ybus V Sbus pv pq ppci options h)
     = fst (newtonpf env Ybus V Sbus pv pq ppci options h')
   \<and> take (length h) (snd (newtonpf env Ybus V Sbus pv pq ppci options h)) = h
   \<and> snd (newtonpf env Ybus V Sbus pv pq ppci options h) =
       (case (options ''max_iteration'', options ''tolerance_mva'') of
          (Some max_it, Some tol) \<Rightarrow> h @ [[Solve (csc_matrix env Ybus) V Sbus pv pq max_it tol]]
        | _ \<Rightarrow> h)"
proof (cases "options ''max_iteration'' = None \<or> options ''tolerance_mva'' = None")
  case True
  then show ?thesis
    by (auto simp: newtonpf_KeyError [OF True] split: option.splits)
next
  case False
  then obtain max_it tol where o: "options ''max_iteration'' = Some max_it"
      "options ''tolerance_mva'' = Some tol"
    by auto
  show ?thesis
    by (simp add: newtonpf_eq [OF o] o)
qed

section \<open>The parts of \<open>runpp\<close>\<close>

lemma runpp_prepare_Inr:
  assumes "runpp_tables env net mi nr kw = Inr n0" and "pd2ppc env n0 = (ppc, ppci, n1)"
  shows "runpp_prepare env self net mi nr kw
           = Inr (self\<lparr>k_ppci := Some ppci\<rparr>, n1\<lparr>n_ppc := Some ppc\<rparr>, n_options n1, ppci)"
  by (simp add: runpp_prepare_def assms Let_def)

lemma runpp_prepare_solver:
  assumes "runpp_prepare env self net mi nr kw = Inr (s, n, opts, ppci)"
  shows "k_solver s = k_solver self \<and> k_V s = k_V self \<and> k_Ybus s = k_Ybus self
       \<and> k_pv s = k_pv self \<and> k_pq s = k_pq self"
  using assms
  by (auto simp: runpp_prepare_def Let_def split: sum.splits prod.splits)


lemma runpp_reset_Inr:
  assumes "opts ''init_va_degree'' = Some va" and "opts ''enforce_q_lims'' = Some q" and "\<not> truthy q"
    and "ppci_dc = (if va = PyStr ''dc'' then run_dc_pf env ppci else ppci)"
    and "pfv = get_pf_variables_from_ppci env ppci_dc"
    and "get_Y_bus env ppci_dc opts (fst (get_numba_functions env ppci_dc opts))
           (pf_baseMVA pfv) (pf_bus pfv) (pf_branch pfv) = (ppci_y, Ybus, Yf, Yt)"
  shows "\<exists>s. runpp_reset env self ppci opts = Inr (s, ppci_y, pf_V0 pfv)
           \<and> k_solver s = k_solver self \<and> k_Ybus s = Some Ybus
           \<and> k_pv s = Some (pf_pv pfv) \<and> k_pq s = Some (pf_pq pfv)"
proof -
  obtain makeYbus pfsoln where nf: "get_numba_functions env ppci_dc opts = (makeYbus, pfsoln)"
    by (cases "get_numba_functions env ppci_dc opts")
  have yb: "get_Y_bus env ppci_dc opts makeYbus
           (pf_baseMVA (get_pf_variables_from_ppci env ppci_dc))
           (pf_bus (get_pf_variables_from_ppci env ppci_dc))
           (pf_branch (get_pf_variables_from_ppci env ppci_dc)) = (ppci_y, Ybus, Yf, Yt)"
    using assms(6) unfolding nf assms(5) by simp
  have d: "(if va = PyStr ''dc'' then run_dc_pf env ppci else ppci) = ppci_dc"
    using assms(4) by simp
  show ?thesis
    using assms(1,2,3)
    by (simp add: runpp_reset_def bind_err_def raise_at_def getitem_def Let_def d nf yb assms(5))
qed

lemma runpp_reset_fields:
  assumes "runpp_reset env self ppci opts = Inr (s, ppci', V0)"
  shows "k_solver s = k_solver self \<and> (\<exists>Y pv pq. k_Ybus s = Some Y \<and> k_pv s = Some pv \<and> k_pq s = Some pq)"
  using assms
  by (auto simp: runpp_reset_def bind_err_def raise_at_def getitem_def Let_def
      split: option.splits if_splits prod.splits)

lemma runpp_solve_Inr:
  assumes "opts ''max_iteration'' = Some max_it" and "opts ''tolerance_mva'' = Some tol"
    and "k_Ybus self = Some Y" and "k_pv self = Some pv" and "k_pq self = Some pq"
    and "need_reset \<or> k_V self = Some V"
    and "Vin = (if need_reset then V0 else V)"
    and "calls = k_solver self @ (if need_reset then [Reset] else [])
                   @ [Solve (csc_matrix env Y) Vin (get_Sbus env ppci False) pv pq max_it tol]"
  shows "\<exists>s. runpp_solve env self ppci opts need_reset V0
           = Inr (s, get_Sbus env ppci False, so_J (klu_out env calls), so_converged (klu_out env calls),
                  so_nb_iter (klu_out env calls), so_timers (klu_out env calls))
         \<and> k_solver s = calls
         \<and> k_V s = Some (polar_V (get_Vm (klu_out env calls)) (get_Va (klu_out env calls)))
         \<and> k_Ybus s = Some (csc_matrix env Y) \<and> k_pv s = Some pv \<and> k_pq s = Some pq"
  using assms
  by (cases need_reset)
     (simp_all add: runpp_solve_def bind_err_def raise_at_def getitem_def required_def Let_def)

lemma runpp_solve_fields:
  assumes "runpp_solve env self ppci opts need_reset V0 = Inr (s, rest)"
  shows "k_V s = Some (polar_V (get_Vm (klu_out env (k_solver s))) (get_Va (klu_out env (k_solver s))))
       \<and> (\<exists>Y. k_Ybus s = Some Y) \<and> k_pv s = k_pv self \<and> k_pq s = k_pq self
       \<and> (\<exists>pv pq. k_pv s = Some pv \<and> k_pq s = Some pq)"
  using assms
  by (cases need_reset)
     (auto simp: runpp_solve_def bind_err_def raise_at_def getitem_def required_def Let_def
      split: option.splits)

lemma runpp_store_fields:
  assumes "runpp_store env self net ppci opts Sbus J success iterations timers = (s, n)"
  shows "k_solver s = k_solver self \<and> k_V s = k_V self \<and> k_Ybus s = k_Ybus self
       \<and> k_pv s = k_pv self \<and> k_pq s = k_pq self"
  using assms
  by (auto simp: runpp_store_def Let_def split: prod.splits)


lemma runpp_Inr_D:
  assumes "runpp env self net mi nr kw = Inr (self', net')"
  shows "\<exists>s n opts ppci s2 ppci2 V0 s3 Sbus J success iterations timers.
      runpp_prepare env self net mi nr kw = Inr (s, n, opts, ppci)
    \<and> (if nr then runpp_reset env s ppci opts else Inr (s, ppci, [])) = Inr (s2, ppci2, V0)
    \<and> runpp_solve env s2 ppci2 opts nr V0 = Inr (s3, Sbus, J, success, iterations, timers)
    \<and> runpp_store env s3 n ppci2 opts Sbus J success iterations timers = (self', net')"
proof -
  from assms obtain s n opts ppci where p: "runpp_prepare env self net mi nr kw = Inr (s, n, opts, ppci)"
    by (cases "runpp_prepare env self net mi nr kw") (auto simp: runpp_def bind_err_def)
  from assms p obtain s2 ppci2 V0 where
    r: "(if nr then runpp_reset env s ppci opts else Inr (s, ppci, [])) = Inr (s2, ppci2, V0)"
    by (cases "if nr then runpp_reset env s ppci opts else Inr (s, ppci, [])")
       (auto simp: runpp_def bind_err_def with_net_def)
  from assms p r obtain s3 Sbus J success iterations timers where
    v: "runpp_solve env s2 ppci2 opts nr V0 = Inr (s3, Sbus, J, success, iterations, timers)"
    by (cases "runpp_solve env s2 ppci2 opts nr V0")
       (auto simp: runpp_def bind_err_def with_net_def)
  from assms p r v have "runpp_store env s3 n ppci2 opts Sbus J success iterations timers = (self', net')"
    by (simp add: runpp_def bind_err_def with_net_def)
  with p r v show ?thesis by blast
qed

lemma runpp_Inr_I:
  assumes "runpp_prepare env self net mi nr kw = Inr (s, n, opts, ppci)"
    and "(if nr then runpp_reset env s ppci opts else Inr (s, ppci, [])) = Inr (s2, ppci2, V0)"
    and "runpp_solve env s2 ppci2 opts nr V0 = Inr (s3, Sbus, J, success, iterations, timers)"
  shows "runpp env self net mi nr kw
           = Inr (runpp_store env s3 n ppci2 opts Sbus J success iterations timers)"
  using assms by (simp add: runpp_def bind_err_def with_net_def)

lemma runpp_returned_fields:
  assumes "runpp env self net mi True kw = Inr (self', net')"
  shows "\<exists>Y pv pq. k_Ybus self' = Some Y \<and> k_pv self' = Some pv \<and> k_pq self' = Some pq
           \<and> k_V self' = Some (polar_V (get_Vm (klu_out env (k_solver self')))
                                       (get_Va (klu_out env (k_solver self'))))"
proof -
  obtain s n opts ppci s2 ppci2 V0 s3 Sbus J success iterations timers where
      v: "runpp_solve env s2 ppci2 opts True V0 = Inr (s3, Sbus, J, success, iterations, timers)"
      and t: "runpp_store env s3 n ppci2 opts Sbus J success iterations timers = (self', net')"
    using runpp_Inr_D [OF assms] by blast
  from runpp_solve_fields [OF v] runpp_store_fields [OF t] show ?thesis
    by metis
qed

section \<open>Cold and warm calls of \<open>runpp\<close>\<close>

lemma runpp_warm:
  assumes t: "runpp_tables env net mi False kw = Inr n0"
    and c: "pd2ppc env n0 = (ppc, ppci, n1)"
    and o: "n_options n1 ''max_iteration'' = Some max_it" "n_options n1 ''tolerance_mva'' = Some tol"
    and f: "k_Ybus self = Some Ybus" "k_V self = Some V" "k_pv self = Some pv" "k_pq self = Some pq"
  shows "\<exists>self' net'. runpp env self net mi False kw = Inr (self', net')
           \<and> k_solver self' = k_solver self
                @ [Solve (csc_matrix env Ybus) V (get_Sbus env ppci False) pv pq max_it tol]"
proof -
  let ?s = "self\<lparr>k_ppci := Some ppci\<rparr>"
  let ?calls = "k_solver ?s @ (if False then [Reset] else [])
                   @ [Solve (csc_matrix env Ybus) (if False then [] else V) (get_Sbus env ppci False) pv pq max_it tol]"
  have p: "runpp_prepare env self net mi False kw
             = Inr (?s, n1\<lparr>n_ppc := Some ppc\<rparr>, n_options n1, ppci)"
    by (rule runpp_prepare_Inr [OF t c])
  have r: "(if False then runpp_reset env ?s ppci (n_options n1) else Inr (?s, ppci, []))
             = Inr (?s, ppci, [])"
    by simp
  obtain s3 where v: "runpp_solve env ?s ppci (n_options n1) False []
           = Inr (s3, get_Sbus env ppci False, so_J (klu_out env ?calls), so_converged (klu_out env ?calls),
                  so_nb_iter (klu_out env ?calls), so_timers (klu_out env ?calls))"
      and k: "k_solver s3 = ?calls"
    using runpp_solve_Inr [OF o, of ?s Ybus pv pq False V "if False then [] else V" "[]" ?calls env ppci]
    using f by auto
  obtain self' net' where st: "runpp_store env s3 (n1\<lparr>n_ppc := Some ppc\<rparr>) ppci (n_options n1)
       (get_Sbus env ppci False) (so_J (klu_out env ?calls)) (so_converged (klu_out env ?calls))
       (so_nb_iter (klu_out env ?calls)) (so_timers (klu_out env ?calls)) = (self', net')"
    by (cases "runpp_store env s3 (n1\<lparr>n_ppc := Some ppc\<rparr>) ppci (n_options n1)
       (get_Sbus env ppci False) (so_J (klu_out env ?calls)) (so_converged (klu_out env ?calls))
       (so_nb_iter (klu_out env ?calls)) (so_timers (klu_out env ?calls))")
  have "runpp env self net mi False kw = Inr (self', net')"
    using runpp_Inr_I [OF p r v] st by simp
  moreover have "k_solver self' = k_solver self
                @ [Solve (csc_matrix env Ybus) V (get_Sbus env ppci False) pv pq max_it tol]"
    using runpp_store_fields [OF st] k by simp
  ultimately show ?thesis by blast
qed

lemma runpp_cold:
  assumes t: "runpp_tables env net mi True kw = Inr n0"
    and c: "pd2ppc env n0 = (ppc, ppci, n1)"
    and o: "n_options n1 ''max_iteration'' = Some max_it" "n_options n1 ''tolerance_mva'' = Some tol"
    and q: "n_options n1 ''init_va_degree'' = Some va" "n_options n1 ''enforce_q_lims'' = Some q"
      "\<not> truthy q"
    and d: "ppci_dc = (if va = PyStr ''dc'' then run_dc_pf env ppci else ppci)"
    and pf: "pfv = get_pf_variables_from_ppci env ppci_dc"
    and y: "get_Y_bus env ppci_dc (n_options n1) (fst (get_numba_functions env ppci_dc (n_options n1)))
           (pf_baseMVA pfv) (pf_bus pfv) (pf_branch pfv) = (ppci_y, Ybus, Yf, Yt)"
  shows "\<exists>self' net'. runpp env self net mi True kw = Inr (self', net')
           \<and> k_solver self' = k_solver self
                @ [Reset, Solve (csc_matrix env Ybus) (pf_V0 pfv) (get_Sbus env ppci_y False)
                            (pf_pv pfv) (pf_pq pfv) max_it tol]"
proof -
  let ?s = "self\<lparr>k_ppci := Some ppci\<rparr>"
  have p: "runpp_prepare env self net mi True kw
             = Inr (?s, n1\<lparr>n_ppc := Some ppc\<rparr>, n_options n1, ppci)"
    by (rule runpp_prepare_Inr [OF t c])
  obtain s2 where r0: "runpp_reset env ?s ppci (n_options n1) = Inr (s2, ppci_y, pf_V0 pfv)"
      and s2: "k_solver s2 = k_solver ?s" "k_Ybus s2 = Some Ybus"
        "k_pv s2 = Some (pf_pv pfv)" "k_pq s2 = Some (pf_pq pfv)"
    using runpp_reset_Inr [OF q d pf y, of ?s] by blast
  have r: "(if True then runpp_reset env ?s ppci (n_options n1) else Inr (?s, ppci, []))
             = Inr (s2, ppci_y, pf_V0 pfv)"
    using r0 by simp
  let ?calls = "k_solver s2 @ (if True then [Reset] else [])
                   @ [Solve (csc_matrix env Ybus) (if True then pf_V0 pfv else [])
                        (get_Sbus env ppci_y False) (pf_pv pfv) (pf_pq pfv) max_it tol]"
  obtain s3 where v: "runpp_solve env s2 ppci_y (n_options n1) True (pf_V0 pfv)
           = Inr (s3, get_Sbus env ppci_y False, so_J (klu_out env ?calls), so_converged (klu_out env ?calls),
                  so_nb_iter (klu_out env ?calls), so_timers (klu_out env ?calls))"
      and k: "k_solver s3 = ?calls"
    using runpp_solve_Inr [OF o s2(2,3,4), of True "[]" "if True then pf_V0 pfv else []" "pf_V0 pfv" ?calls env ppci_y]
    by auto
  obtain self' net' where st: "runpp_store env s3 (n1\<lparr>n_ppc := Some ppc\<rparr>) ppci_y (n_options n1)
       (get_Sbus env ppci_y False) (so_J (klu_out env ?calls)) (so_converged (klu_out env ?calls))
       (so_nb_iter (klu_out env ?calls)) (so_timers (klu_out env ?calls)) = (self', net')"
    by (cases "runpp_store env s3 (n1\<lparr>n_ppc := Some ppc\<rparr>) ppci_y (n_options n1)
       (get_Sbus env ppci_y False) (so_J (klu_out env ?calls)) (so_converged (klu_out env ?calls))
       (so_nb_iter (klu_out env ?calls)) (so_timers (klu_out env ?calls))")
  have "runpp env self net mi True kw = Inr (self', net')"
    using runpp_Inr_I [OF p r v] st by simp
  moreover have "k_solver self' = k_solver self
                @ [Reset, Solve (csc_matrix env Ybus) (pf_V0 pfv) (get_Sbus env ppci_y False)
                            (pf_pv pfv) (pf_pq pfv) max_it tol]"
    using runpp_store_fields [OF st] k s2(1) by simp
  ultimately show ?thesis by blast
qed


section \<open>Cold and warm calls on the example\<close>

lemma example_env_sel:
  "init_runpp_options example_env net m nr kw = net\<lparr>n_options := example_options m (n_data net = 1)\<rparr>"
  "add_auxiliary_elements example_env net = net"
  "verify_results example_env net = net"
  "reset_results example_env net = net"
  "pd2ppc example_env net = (n_data net, n_data net + 100, net)"
  "run_dc_pf example_env p = p"
  "get_numba_functions example_env p opts = (0, 0)"
  "get_pf_variables_from_ppci example_env p =
     \<lparr>pf_baseMVA = 1, pf_bus = p, pf_gen = p, pf_branch = p, pf_ref = 0,
      pf_pv = 1, pf_pq = 2, pf_on = 0, pf_gbus = 0, pf_V0 = [1, 1], pf_ref_gens = 0\<rparr>"
  "get_Y_bus example_env p opts mk b bus br = (p, p + 1000, 0, 0)"
  "get_Sbus example_env p f = p + 7"
  "store_internal example_env p es = p"
  "ppci_to_pfsoln example_env p opts = (p, p, p)"
  "store_results_from_pf_in_ppci example_env p bus gen br su it = p"
  "ppci_to_net example_env r net = net"
  "csc_matrix example_env m' = m'"
  "klu_out example_env calls =
     \<lparr>so_V = [(1, 0), (real (length calls), 0)], so_J = 0, so_converged = True,
      so_nb_iter = length calls, so_timers = 0\<rparr>"
  by (simp_all add: example_env_def)

lemma runpp_tables_example:
  "runpp_tables example_env (example_net d) m nr Map.empty =
     Inr \<lparr>n_options = example_options m (d = 1), n_converged = False, n_OPF_converged = False,
          n_ppc = None, n_data = d\<rparr>"
  by (simp add: runpp_tables_def fixed_keywords_def example_env_sel example_net_def
      example_options_keys bind_err_def raise_at_def getitem_def Let_def)

lemma runpp_prepare_example:
  "runpp_prepare example_env self (example_net d) m nr Map.empty =
     Inr (self\<lparr>k_ppci := Some (d + 100)\<rparr>,
          \<lparr>n_options = example_options m (d = 1), n_converged = False, n_OPF_converged = False,
           n_ppc = Some d, n_data = d\<rparr>,
          example_options m (d = 1), d + 100)"
  by (simp add: runpp_prepare_def runpp_tables_example example_env_sel Let_def)

lemma runpp_reset_example:
  "runpp_reset example_env (klu4pp_init\<lparr>k_ppci := Some 100\<rparr>) 100 (example_options m False) =
     Inr (\<lparr>k_solver = [], k_ppci = Some 100, k_V = None, k_Ybus = Some 1100, k_pv = Some 1,
           k_pq = Some 2, k_Yf = Some 0, k_Yt = Some 0, k_bus = Some 100, k_gen = Some 100,
           k_branch = Some 100, k_ref = Some 0, k_ref_gens = Some 0, k_baseMVA = Some 1\<rparr>,
          100, [1, 1])"
  by (simp add: runpp_reset_def example_env_sel example_options_keys klu4pp_init_def
      bind_err_def raise_at_def getitem_def Let_def)

lemma polar_V_example: "polar_V [1, x] [0, 0] = [1, complex_of_real x]"
  by (simp add: polar_V_def)

lemma runpp_solve_example:
  "runpp_solve example_env
     \<lparr>k_solver = [], k_ppci = Some 100, k_V = None, k_Ybus = Some 1100, k_pv = Some 1,
           k_pq = Some 2, k_Yf = Some 0, k_Yt = Some 0, k_bus = Some 100, k_gen = Some 100,
           k_branch = Some 100, k_ref = Some 0, k_ref_gens = Some 0, k_baseMVA = Some 1\<rparr>
     100 (example_options (PyInt 10) False) True [1, 1] =
     Inr (\<lparr>k_solver = [Reset, Solve 1100 [1, 1] 107 1 2 (PyInt 10) (PyFloat (1 / 100000000))],
           k_ppci = Some 100, k_V = Some [1, 2], k_Ybus = Some 1100, k_pv = Some 1,
           k_pq = Some 2, k_Yf = Some 0, k_Yt = Some 0, k_bus = Some 100, k_gen = Some 100,
           k_branch = Some 100, k_ref = Some 0, k_ref_gens = Some 0, k_baseMVA = Some 1\<rparr>,
          107, 0, True, 2, 0)"
  by (simp add: runpp_solve_def example_env_sel example_options_keys
      bind_err_def raise_at_def getitem_def required_def Let_def get_Vm_def get_Va_def polar_V_example)

lemma runpp_store_example:
  "runpp_store example_env
     \<lparr>k_solver = cs, k_ppci = Some 100, k_V = v, k_Ybus = Some 1100, k_pv = Some 1,
           k_pq = Some 2, k_Yf = Some 0, k_Yt = Some 0, k_bus = Some 100, k_gen = Some 100,
           k_branch = Some 100, k_ref = Some 0, k_ref_gens = Some 0, k_baseMVA = Some 1\<rparr>
     net 100 opts Sbus J su it ti =
     (\<lparr>k_solver = cs, k_ppci = Some 100, k_V = v, k_Ybus = Some 1100, k_pv = Some 1,
           k_pq = Some 2, k_Yf = Some 0, k_Yt = Some 0, k_bus = Some 100, k_gen = Some 100,
           k_branch = Some 100, k_ref = Some 0, k_ref_gens = Some 0, k_baseMVA = Some 1\<rparr>, net)"
  by (simp add: runpp_store_def example_env_sel Let_def)

lemma runpp_example_first:
  "runpp example_env klu4pp_init (example_net 0) (PyInt 10) True Map.empty =
     Inr (warm_self,
          \<lparr>n_options = example_options (PyInt 10) False, n_converged = False,
           n_OPF_converged = False, n_ppc = Some 0, n_data = 0\<rparr>)"
proof -
  have p: "runpp_prepare example_env klu4pp_init (example_net 0) (PyInt 10) True Map.empty =
     Inr (klu4pp_init\<lparr>k_ppci := Some 100\<rparr>,
          \<lparr>n_options = example_options (PyInt 10) False, n_converged = False, n_OPF_converged = False,
           n_ppc = Some 0, n_data = 0\<rparr>,
          example_options (PyInt 10) False, 100)"
    using runpp_prepare_example [of klu4pp_init 0 "PyInt 10" True] by simp
  show ?thesis
    unfolding runpp_def p
    by (simp add: bind_err_def with_net_def runpp_reset_example runpp_solve_example
        runpp_store_example warm_self_def del: One_nat_def)
qed


text \<open>
  Claim C2. Take an object on which a \<open>runpp\<close> with \<open>need_reset=True\<close> has returned, and a
  further call whose options hold what it reads. With \<open>need_reset=False\<close> the further
  call returns, and the solver receives one more call, a \<open>solve\<close> and no \<open>reset\<close>: its
  injections are \<open>_get_Sbus\<close> of the case converted in this call from the network as it
  is now, its voltages are \<open>self.V\<close>, the \<open>Vm * exp(j * Va)\<close> of the solver after the
  previous call, and its matrix and bus lists are those the object kept. With
  \<open>need_reset=True\<close> the solver receives \<open>reset\<close> and then a \<open>solve\<close> whose voltages are
  the \<open>V0\<close> computed in this call.
\<close>

theorem runpp_warm_start:
  assumes "runpp env self0 net0 mi0 True kw0 = Inr (self1, net1)"
    and "runpp_tables env net mi need_reset kw = Inr n0"
    and "pd2ppc env n0 = (ppc, ppci, n1)"
    and "n_options n1 ''max_iteration'' = Some max_it"
    and "n_options n1 ''tolerance_mva'' = Some tol"
    and "need_reset \<longrightarrow> n_options n1 ''init_va_degree'' = Some va
           \<and> n_options n1 ''enforce_q_lims'' = Some q \<and> \<not> truthy q"
  shows "\<exists>self2 net2 Ybus V pv pq.
       runpp env self1 net mi need_reset kw = Inr (self2, net2)
     \<and> k_Ybus self1 = Some Ybus \<and> k_V self1 = Some V \<and> k_pv self1 = Some pv \<and> k_pq self1 = Some pq
     \<and> V = polar_V (get_Vm (klu_out env (k_solver self1))) (get_Va (klu_out env (k_solver self1)))
     \<and> k_solver self2 = k_solver self1 @
         (if need_reset
          then (let ppci_dc = (if va = PyStr ''dc'' then run_dc_pf env ppci else ppci);
                    pfv = get_pf_variables_from_ppci env ppci_dc
                in case get_Y_bus env ppci_dc (n_options n1)
                          (fst (get_numba_functions env ppci_dc (n_options n1)))
                          (pf_baseMVA pfv) (pf_bus pfv) (pf_branch pfv) of
                     (ppci_y, Ybus_new, Yf, Yt) \<Rightarrow>
                       [Reset, Solve (csc_matrix env Ybus_new) (pf_V0 pfv) (get_Sbus env ppci_y False)
                                 (pf_pv pfv) (pf_pq pfv) max_it tol])
          else [Solve (csc_matrix env Ybus) V (get_Sbus env ppci False) pv pq max_it tol])"
proof -
  obtain Ybus pv pq where f: "k_Ybus self1 = Some Ybus" "k_pv self1 = Some pv" "k_pq self1 = Some pq"
      "k_V self1 = Some (polar_V (get_Vm (klu_out env (k_solver self1)))
                                 (get_Va (klu_out env (k_solver self1))))"
    using runpp_returned_fields [OF assms(1)] by blast
  show ?thesis
  proof (cases need_reset)
    case False
    then have nr: "need_reset = False" by simp
    obtain self2 net2 where w: "runpp env self1 net mi False kw = Inr (self2, net2)"
        "k_solver self2 = k_solver self1
           @ [Solve (csc_matrix env Ybus)
                (polar_V (get_Vm (klu_out env (k_solver self1))) (get_Va (klu_out env (k_solver self1))))
                (get_Sbus env ppci False) pv pq max_it tol]"
      using runpp_warm [OF assms(2) [unfolded nr] assms(3,4,5) f(1,4,2,3)] by blast
    show ?thesis
      using w f False by simp
  next
    case True
    then have nr: "need_reset = True" by simp
    define ppci_dc where "ppci_dc = (if va = PyStr ''dc'' then run_dc_pf env ppci else ppci)"
    define pfv where "pfv = get_pf_variables_from_ppci env ppci_dc"
    obtain ppci_y Ybus_new Yf Yt where y:
        "get_Y_bus env ppci_dc (n_options n1) (fst (get_numba_functions env ppci_dc (n_options n1)))
           (pf_baseMVA pfv) (pf_bus pfv) (pf_branch pfv) = (ppci_y, Ybus_new, Yf, Yt)"
      by (cases "get_Y_bus env ppci_dc (n_options n1) (fst (get_numba_functions env ppci_dc (n_options n1)))
           (pf_baseMVA pfv) (pf_bus pfv) (pf_branch pfv)")
    have q: "n_options n1 ''init_va_degree'' = Some va" "n_options n1 ''enforce_q_lims'' = Some q"
        "\<not> truthy q"
      using assms(6) True by simp_all
    obtain self2 net2 where w: "runpp env self1 net mi True kw = Inr (self2, net2)"
        "k_solver self2 = k_solver self1
           @ [Reset, Solve (csc_matrix env Ybus_new) (pf_V0 pfv) (get_Sbus env ppci_y False)
                       (pf_pv pfv) (pf_pq pfv) max_it tol]"
      using runpp_cold [OF assms(2) [unfolded nr] assms(3,4,5) q ppci_dc_def pfv_def y] by blast
    show ?thesis
      using w f True y unfolding ppci_dc_def pfv_def by (simp add: Let_def)
  qed
qed

lemma warm_self_fields:
  "k_Ybus warm_self = Some 1100" "k_V warm_self = Some [1, 2]" "k_pv warm_self = Some 1"
  "k_pq warm_self = Some 2"
  "k_solver warm_self = [Reset, Solve 1100 [1, 1] 107 1 2 (PyInt 10) (PyFloat (1 / 100000000))]"
  by (simp_all add: warm_self_def)

theorem runpp_warm_start_witness:
  "\<exists>self2 net2. runpp example_env warm_self (example_net 5) (PyInt 10) False Map.empty
                  = Inr (self2, net2)
     \<and> k_solver self2 =
         [Reset, Solve 1100 [1, 1] 107 1 2 (PyInt 10) (PyFloat (1 / 100000000)),
          Solve 1100 [1, 2] 112 1 2 (PyInt 10) (PyFloat (1 / 100000000))]"
proof -
  have p: "pd2ppc example_env \<lparr>n_options = example_options (PyInt 10) (5 = (1::nat)), n_converged = False,
            n_OPF_converged = False, n_ppc = None, n_data = 5\<rparr>
        = (5, 105, \<lparr>n_options = example_options (PyInt 10) (5 = (1::nat)), n_converged = False,
            n_OPF_converged = False, n_ppc = None, n_data = 5\<rparr>)"
    by (simp add: example_env_sel)
  have o: "n_options \<lparr>n_options = example_options (PyInt 10) (5 = (1::nat)), n_converged = False,
            n_OPF_converged = False, n_ppc = None, n_data = 5\<rparr> ''max_iteration'' = Some (PyInt 10)"
     "n_options \<lparr>n_options = example_options (PyInt 10) (5 = (1::nat)), n_converged = False,
            n_OPF_converged = False, n_ppc = None, n_data = 5\<rparr> ''tolerance_mva''
        = Some (PyFloat (1 / 100000000))"
    by (simp_all add: example_options_keys)
  have n: "False \<longrightarrow> n_options \<lparr>n_options = example_options (PyInt 10) (5 = (1::nat)), n_converged = False,
            n_OPF_converged = False, n_ppc = None, n_data = 5\<rparr> ''init_va_degree'' = Some PyNone
           \<and> n_options \<lparr>n_options = example_options (PyInt 10) (5 = (1::nat)), n_converged = False,
            n_OPF_converged = False, n_ppc = None, n_data = 5\<rparr> ''enforce_q_lims'' = Some PyNone
           \<and> \<not> truthy PyNone"
    by simp
  from runpp_warm_start [OF runpp_example_first runpp_tables_example p o n]
  show ?thesis
    by (simp add: warm_self_fields example_env_sel get_Vm_def get_Va_def polar_V_example
        del: One_nat_def)
qed





end
